theory Spec2Isabelle
  imports Main "HOL-Library.Word"
begin

unbundle bit_operations_syntax

section \<open>The master-side Device of KaCanOpen (src/master/device.cpp)\<close>

text \<open>
  The development embeds the member functions of \<open>kaco::Device\<close> that read and write
  dictionary entries, extend the dictionary, register receive PDO mappings and remap
  TPDOs on the remote node. A member function becomes a function from the device state
  to a pair (outcome, new state): \<open>Inl e\<close> is the exception \<open>e\<close> leaving the function,
  \<open>Inr r\<close> is a normal return. The state is returned in both cases, because an exception
  does not undo what the function did before it was thrown.
\<close>

subsection \<open>Data\<close>

type_synonym byte = "8 word"

text \<open>\<open>Address\<close> is the pair (index, subindex), the key of \<open>m_dictionary\<close>.\<close>

type_synonym Address = "16 word \<times> 8 word"

text \<open>
  Modelled from the spec: the enumeration \<open>kaco::Type\<close> (types.h is not under src/).
  device.cpp itself names \<open>Type::invalid\<close> and \<open>Type::uint32\<close> and builds values of
  the types uint8, uint16 and uint32.
\<close>

datatype Type =
  invalid | boolean | int8 | int16 | int32 | uint8 | uint16 | uint32 | real32
  | string | octet_string

text \<open>
  Modelled from the spec: the enumerations \<open>AccessType\<close>, \<open>ReadAccessMethod\<close> and
  \<open>WriteAccessMethod\<close> (their headers are not under src/). device.cpp names the
  methods \<open>sdo\<close> and \<open>use_default\<close>, the example program reads with
  \<open>pdo_request_and_wait\<close>. The access type \<open>constant\<close> is written \<open>constant_access\<close>,
  since \<open>constant\<close> is a keyword here.
\<close>

datatype AccessType = read_only | write_only | read_write | constant_access

datatype ReadAccessMethod = sdo | pdo | pdo_request_and_wait | use_default

datatype WriteAccessMethod = sdo | pdo | use_default

text \<open>The four values of \<open>kaco::TPDO_NO\<close> that \<open>get_tpdo_indexes\<close> switches on.\<close>

datatype TPDO_NO = TPDO_1 | TPDO_2 | TPDO_3 | TPDO_4

text \<open>
  Modelled from the spec: \<open>kaco::Value\<close> (value.h is not under src/) is a type tag with
  the raw little-endian payload. \<open>Value t bs\<close> is the object itself; the checked
  constructor from bytes is \<open>Value_from_bytes\<close> below.
\<close>

datatype Value = Value Type "byte list"

fun value_type :: "Value \<Rightarrow> Type" where
  "value_type (Value t bs) = t"

fun get_bytes :: "Value \<Rightarrow> byte list" where
  "get_bytes (Value t bs) = bs"

text \<open>
  The exceptions that device.cpp throws and catches: \<open>canopen_error\<close>,
  \<open>dictionary_error\<close> with its type, and \<open>sdo_error\<close> with its type and, for an abort,
  the abort code. The \<open>what()\<close> texts are not modelled. device.cpp names the
  \<open>sdo_error\<close> types \<open>unknown\<close> and \<open>response_timeout\<close>; \<open>abort\<close> and \<open>malformed\<close> are
  modelled from the spec (sdo_error.h is not under src/).
\<close>

datatype dictionary_error_type =
  unknown_entry | unknown_operation | unknown_constant | wrong_type | mapping_size

datatype sdo_error_type = response_timeout | abort | malformed | unknown

datatype error =
  canopen_error
  | dictionary_error dictionary_error_type
  | sdo_error sdo_error_type "32 word option"

text \<open>
  Modelled from the spec: the fields of \<open>kaco::Entry\<close> that device.cpp reads and writes
  (entry.h is not under src/). \<open>m_value\<close> is the cached current value, read by
  \<open>get_value\<close> and written by \<open>set_value\<close>.
\<close>

record Entry =
  index :: "16 word"
  subindex :: byte
  name :: string
  type :: Type
  access_type :: AccessType
  read_access_method :: ReadAccessMethod
  write_access_method :: WriteAccessMethod
  m_value :: Value
  disabled :: bool

record ReceivePDOMapping =
  cob_id :: "16 word"
  entry_name :: string
  offset :: byte

text \<open>
  The requests that the Device hands to \<open>m_core.sdo\<close>: \<open>upload(node, index, subindex)\<close>
  and \<open>download(node, index, subindex, size, bytes)\<close>.
\<close>

datatype sdo_request =
  Upload byte "16 word" byte
  | Download byte "16 word" byte nat "byte list"

text \<open>
  A CAN frame as \<open>send_heartbeat\<close> builds it for \<open>m_core.send\<close>: COB-ID, remote
  request flag, length and data.
\<close>

record Message =
  message_cob_id :: "16 word"
  message_rtr :: bool
  message_len :: byte
  message_data :: "byte list"

text \<open>
  The Core is not under src/. Every access of the Device to the bus is a call on
  \<open>m_core\<close>, and the state of the Core records these calls in order: the SDO requests
  handed to \<open>m_core.sdo\<close>, the frames handed to \<open>m_core.send\<close>, and the callbacks
  registered with \<open>m_core.pdo\<close>. A callback bound to \<open>Device::pdo_received_callback\<close>
  is represented by the mapping it was bound with.
\<close>

record Core =
  sdo_log :: "sdo_request list"
  sent_messages :: "Message list"
  pdo_received_callbacks :: "(16 word \<times> ReceivePDOMapping) list"

text \<open>
  The members of \<open>kaco::Device\<close>. An \<open>Operation\<close> is a \<open>std::function\<close> that takes the
  device itself, so its type is left as the parameter \<open>'op\<close>.
\<close>

record 'op Device =
  m_core :: Core
  m_node_id :: byte
  m_dictionary :: "Address \<rightharpoonup> Entry"
  m_name_to_address :: "string \<rightharpoonup> Address"
  m_operations :: "string \<rightharpoonup> 'op"
  m_constants :: "string \<rightharpoonup> Value"
  m_receive_pdo_mappings :: "ReceivePDOMapping list"
  cob_ids :: "16 word list"

text \<open>
  What device.cpp uses from files that are not under src/ is a parameter of the model:
  \<^item> \<open>escape\<close>: \<open>Utils::escape\<close>, the canonical form of a name;
  \<^item> \<open>get_type_size\<close>: \<open>Utils::get_type_size\<close>, the byte width of a type;
  \<^item> \<open>repeats_on_sdo_timeout\<close>: \<open>Config::repeats_on_sdo_timeout\<close>, taken as a natural
    number (a count below the machine limit, so that adding 1 does not wrap);
  \<^item> \<open>default_Entry\<close>: the default-constructed \<open>Entry()\<close> that \<open>std::map::operator[]\<close>
    inserts for a missing key;
  \<^item> \<open>sdo_server\<close>: the outcome of one SDO transfer, given the requests issued before
    it: the bytes uploaded (ignored for a download) or the exception thrown by
    \<open>m_core.sdo\<close>.
\<close>

record env =
  escape :: "string \<Rightarrow> string"
  get_type_size :: "Type \<Rightarrow> byte"
  repeats_on_sdo_timeout :: nat
  default_Entry :: Entry
  sdo_server :: "sdo_request list \<Rightarrow> sdo_request \<Rightarrow> error + byte list"

subsection \<open>Values\<close>

text \<open>
  Modelled from the spec: the constructor \<open>Value(type, bytes)\<close>. Construction from
  bytes validates the width against the type; string and octet string have a dynamic
  width.
\<close>

definition Value_from_bytes :: "env \<Rightarrow> Type \<Rightarrow> byte list \<Rightarrow> error + Value" where
  "Value_from_bytes env t bs =
     (if t = string \<or> t = octet_string \<or> length bs = unat (get_type_size env t)
      then Inr (Value t bs) else Inl canopen_error)"

text \<open>
  Modelled from the spec: the constructors \<open>Value(uint8_t)\<close> and \<open>Value(uint32_t)\<close> and
  the conversion operator to \<open>uint32_t\<close>; the payload is little-endian.
\<close>

definition Value_uint8 :: "byte \<Rightarrow> Value" where
  "Value_uint8 b = Value uint8 [b]"

definition uint32_to_bytes :: "32 word \<Rightarrow> byte list" where
  "uint32_to_bytes w =
     [ucast w, ucast (drop_bit 8 w), ucast (drop_bit 16 w), ucast (drop_bit 24 w)]"

definition Value_uint32 :: "32 word \<Rightarrow> Value" where
  "Value_uint32 w = Value uint32 (uint32_to_bytes w)"

fun bytes_to_uint32 :: "byte list \<Rightarrow> 32 word" where
  "bytes_to_uint32 [] = 0"
| "bytes_to_uint32 (b # bs) = ucast b OR push_bit 8 (bytes_to_uint32 bs)"

definition to_uint32 :: "Value \<Rightarrow> error + 32 word" where
  "to_uint32 v =
     (if value_type v = uint32 then Inr (bytes_to_uint32 (get_bytes v))
      else Inl canopen_error)"

text \<open>The value \<open>Value()\<close> of an entry that has never been updated.\<close>

definition Value_invalid :: Value where
  "Value_invalid = Value invalid []"

subsection \<open>Entries\<close>

text \<open>
  Modelled from the spec: \<open>Entry::get_value\<close> and \<open>Entry::set_value\<close> read and replace
  the cached value. (The value-changed subscribers that \<open>set_value\<close> notifies are
  registered by \<open>add_transmit_pdo_mapping\<close>, which is outside this development.)
\<close>

definition get_value :: "Entry \<Rightarrow> Value" where
  "get_value entry = m_value entry"

definition set_value :: "Entry \<Rightarrow> Value \<Rightarrow> Entry" where
  "set_value entry v = entry\<lparr>m_value := v\<rparr>"

text \<open>
  Modelled from the spec: the constructor \<open>Entry(index, subindex, name, type,
  access_type)\<close>; a new entry is invalid until its first update.
\<close>

definition Entry_new ::
  "16 word \<Rightarrow> byte \<Rightarrow> string \<Rightarrow> Type \<Rightarrow> AccessType \<Rightarrow> Entry" where
  "Entry_new i s n t a =
     \<lparr>index = i, subindex = s, name = n, type = t, access_type = a,
      read_access_method = ReadAccessMethod.sdo,
      write_access_method = WriteAccessMethod.sdo,
      m_value = Value_invalid, disabled = False\<rparr>"

subsection \<open>Construction and lookup\<close>

text \<open>\<open>Device::Device(core, node_id)\<close>: every container starts empty.\<close>

definition Device_new :: "Core \<Rightarrow> byte \<Rightarrow> 'op Device" where
  "Device_new c node_id =
     \<lparr>m_core = c, m_node_id = node_id, m_dictionary = Map.empty,
      m_name_to_address = Map.empty, m_operations = Map.empty,
      m_constants = Map.empty, m_receive_pdo_mappings = [], cob_ids = []\<rparr>"

text \<open>\<open>has_entry(index, subindex)\<close>: \<open>m_dictionary.count(Address{index, subindex}) > 0\<close>.\<close>

definition has_entry :: "'op Device \<Rightarrow> 16 word \<Rightarrow> byte \<Rightarrow> bool" where
  "has_entry d i s = (m_dictionary d (i, s) \<noteq> None)"

text \<open>
  \<open>has_entry(entry_name)\<close>: the name is escaped, then looked up in \<open>m_name_to_address\<close>
  and its address in \<open>m_dictionary\<close>. The \<open>&&\<close> evaluates \<open>m_name_to_address[name]\<close> only
  for a name that is present, so nothing is inserted.
\<close>

definition has_entry_name :: "env \<Rightarrow> 'op Device \<Rightarrow> string \<Rightarrow> bool" where
  "has_entry_name env d nm =
     (case m_name_to_address d (escape env nm) of
        None \<Rightarrow> False
      | Some a \<Rightarrow> has_entry d (fst a) (snd a))"

subsection \<open>SDO transfers with repetition\<close>

text \<open>
  One call of \<open>m_core.sdo.upload\<close> or \<open>m_core.sdo.download\<close>: the request is appended
  to the log of the Core and the server decides the outcome.
\<close>

definition sdo_transfer :: "env \<Rightarrow> sdo_request \<Rightarrow> Core \<Rightarrow> (error + byte list) \<times> Core" where
  "sdo_transfer env req c =
     (sdo_server env (sdo_log c) req, c\<lparr>sdo_log := sdo_log c @ [req]\<rparr>)"

text \<open>
  \<open>get_entry_via_sdo\<close>: the loop \<open>for (i = 0; i < repeats_on_sdo_timeout + 1; ++i)\<close>,
  started at \<open>i\<close>. The handler catches \<open>sdo_error\<close> only, whatever its type; any
  other exception leaves the function. When the loop runs out, an \<open>sdo_error\<close> of type
  \<open>response_timeout\<close> is thrown.
\<close>

function get_entry_via_sdo_loop ::
  "env \<Rightarrow> nat \<Rightarrow> byte \<Rightarrow> 16 word \<Rightarrow> byte \<Rightarrow> Type \<Rightarrow> Core \<Rightarrow> (error + Value) \<times> Core" where
  "get_entry_via_sdo_loop env i node idx sub t c =
     (if i < repeats_on_sdo_timeout env + 1 then
        (case sdo_transfer env (Upload node idx sub) c of
           (Inr data, c') \<Rightarrow> (Value_from_bytes env t data, c')
         | (Inl (sdo_error k code), c') \<Rightarrow>
             get_entry_via_sdo_loop env (i + 1) node idx sub t c'
         | (Inl e, c') \<Rightarrow> (Inl e, c'))
      else (Inl (sdo_error response_timeout None), c))"
  by pat_completeness auto
termination
  by (relation "measure (\<lambda>(env, i, node, idx, sub, t, c). repeats_on_sdo_timeout env + 1 - i)")
    auto

definition get_entry_via_sdo ::
  "env \<Rightarrow> byte \<Rightarrow> 16 word \<Rightarrow> byte \<Rightarrow> Type \<Rightarrow> Core \<Rightarrow> (error + Value) \<times> Core" where
  "get_entry_via_sdo env node idx sub t c = get_entry_via_sdo_loop env 0 node idx sub t c"

text \<open>\<open>set_entry_via_sdo\<close>: the same loop around \<open>m_core.sdo.download\<close>.\<close>

function set_entry_via_sdo_loop ::
  "env \<Rightarrow> nat \<Rightarrow> byte \<Rightarrow> 16 word \<Rightarrow> byte \<Rightarrow> Value \<Rightarrow> Core \<Rightarrow> (error + unit) \<times> Core" where
  "set_entry_via_sdo_loop env i node idx sub v c =
     (if i < repeats_on_sdo_timeout env + 1 then
        (case sdo_transfer env
                (Download node idx sub (length (get_bytes v)) (get_bytes v)) c of
           (Inr data, c') \<Rightarrow> (Inr (), c')
         | (Inl (sdo_error k code), c') \<Rightarrow>
             set_entry_via_sdo_loop env (i + 1) node idx sub v c'
         | (Inl e, c') \<Rightarrow> (Inl e, c'))
      else (Inl (sdo_error response_timeout None), c))"
  by pat_completeness auto
termination
  by (relation "measure (\<lambda>(env, i, node, idx, sub, v, c). repeats_on_sdo_timeout env + 1 - i)")
    auto

definition set_entry_via_sdo ::
  "env \<Rightarrow> byte \<Rightarrow> 16 word \<Rightarrow> byte \<Rightarrow> Value \<Rightarrow> Core \<Rightarrow> (error + unit) \<times> Core" where
  "set_entry_via_sdo env node idx sub v c = set_entry_via_sdo_loop env 0 node idx sub v c"

subsection \<open>Reading and writing entries\<close>

text \<open>
  \<open>get_entry(index, subindex, access_method)\<close>. Only \<open>sdo\<close>, given or as the entry's
  default under \<open>use_default\<close>, leads to a transfer; the result is stored in the entry.
  Every other access method returns the cached value. The transfer is addressed with
  the \<open>index\<close> and \<open>subindex\<close> fields of the entry found.
\<close>

definition get_entry ::
  "env \<Rightarrow> 16 word \<Rightarrow> byte \<Rightarrow> ReadAccessMethod \<Rightarrow> 'op Device \<Rightarrow> (error + Value) \<times> 'op Device" where
  "get_entry env idx sub access_method d =
     (case m_dictionary d (idx, sub) of
        None \<Rightarrow> (Inl (dictionary_error unknown_entry), d)
      | Some entry \<Rightarrow>
          if access_method = ReadAccessMethod.sdo \<or>
             (access_method = ReadAccessMethod.use_default \<and>
              read_access_method entry = ReadAccessMethod.sdo)
          then
            (case get_entry_via_sdo env (m_node_id d) (index entry) (subindex entry)
                    (type entry) (m_core d) of
               (Inl e, c') \<Rightarrow> (Inl e, d\<lparr>m_core := c'\<rparr>)
             | (Inr v, c') \<Rightarrow>
                 (Inr (get_value (set_value entry v)),
                  d\<lparr>m_core := c',
                    m_dictionary := (m_dictionary d)((idx, sub) \<mapsto> set_value entry v)\<rparr>))
          else (Inr (get_value entry), d))"

text \<open>
  \<open>set_entry(index, subindex, value, access_method)\<close>. The cached value is replaced
  before the download is attempted.
\<close>

definition set_entry ::
  "env \<Rightarrow> 16 word \<Rightarrow> byte \<Rightarrow> Value \<Rightarrow> WriteAccessMethod \<Rightarrow> 'op Device \<Rightarrow> (error + unit) \<times> 'op Device" where
  "set_entry env idx sub v access_method d =
     (case m_dictionary d (idx, sub) of
        None \<Rightarrow> (Inl (dictionary_error unknown_entry), d)
      | Some entry \<Rightarrow>
          if value_type v \<noteq> type entry then (Inl (dictionary_error wrong_type), d)
          else
            let d1 = d\<lparr>m_dictionary := (m_dictionary d)((idx, sub) \<mapsto> set_value entry v)\<rparr>
            in if access_method = WriteAccessMethod.sdo \<or>
                  (access_method = WriteAccessMethod.use_default \<and>
                   write_access_method entry = WriteAccessMethod.sdo)
               then
                 (case set_entry_via_sdo env (m_node_id d1) (index entry) (subindex entry) v
                         (m_core d1) of
                    (r, c') \<Rightarrow> (r, d1\<lparr>m_core := c'\<rparr>))
               else (Inr (), d1))"

subsection \<open>Extending the dictionary and the tables of operations and constants\<close>

text \<open>
  \<open>add_entry\<close> throws \<open>canopen_error\<close> when the escaped name or the address is taken,
  and inserts into both maps otherwise.
\<close>

definition add_entry ::
  "env \<Rightarrow> 16 word \<Rightarrow> byte \<Rightarrow> string \<Rightarrow> Type \<Rightarrow> AccessType \<Rightarrow> 'op Device \<Rightarrow> (error + unit) \<times> 'op Device" where
  "add_entry env idx sub nm t a d =
     (let en = escape env nm in
      if m_name_to_address d en \<noteq> None then (Inl canopen_error, d)
      else if has_entry d idx sub then (Inl canopen_error, d)
      else (Inr (),
            d\<lparr>m_dictionary := (m_dictionary d)((idx, sub) \<mapsto> Entry_new idx sub en t a),
              m_name_to_address := (m_name_to_address d)(en \<mapsto> (idx, sub))\<rparr>))"

text \<open>
  \<open>add_operation\<close> and \<open>add_constant\<close> log a warning for a name that is taken and
  assign in both cases.
\<close>

definition add_operation :: "env \<Rightarrow> string \<Rightarrow> 'op \<Rightarrow> 'op Device \<Rightarrow> (error + unit) \<times> 'op Device" where
  "add_operation env nm operation d =
     (Inr (), d\<lparr>m_operations := (m_operations d)(escape env nm \<mapsto> operation)\<rparr>)"

definition add_constant :: "env \<Rightarrow> string \<Rightarrow> Value \<Rightarrow> 'op Device \<Rightarrow> (error + unit) \<times> 'op Device" where
  "add_constant env nm v d =
     (Inr (), d\<lparr>m_constants := (m_constants d)(escape env nm \<mapsto> v)\<rparr>)"

subsection \<open>Receive PDO mappings\<close>

text \<open>
  \<open>m_name_to_address[name]\<close> and \<open>m_dictionary[address]\<close> are \<open>std::map::operator[]\<close>:
  a missing key is inserted with a value-initialised \<open>Address\<close>, respectively a
  default-constructed \<open>Entry\<close>, and the element is returned.
\<close>

definition name_to_address_at :: "'op Device \<Rightarrow> string \<Rightarrow> Address \<times> 'op Device" where
  "name_to_address_at d nm =
     (case m_name_to_address d nm of
        Some a \<Rightarrow> (a, d)
      | None \<Rightarrow> ((0, 0), d\<lparr>m_name_to_address := (m_name_to_address d)(nm \<mapsto> (0, 0))\<rparr>))"

definition dictionary_at :: "env \<Rightarrow> 'op Device \<Rightarrow> Address \<Rightarrow> Entry \<times> 'op Device" where
  "dictionary_at env d a =
     (case m_dictionary d a of
        Some entry \<Rightarrow> (entry, d)
      | None \<Rightarrow>
          (default_Entry env, d\<lparr>m_dictionary := (m_dictionary d)(a \<mapsto> default_Entry env)\<rparr>))"

text \<open>
  Modelled from the spec: \<open>PDO::add_pdo_received_callback\<close> of the Core (not under
  src/) registers the callback for the COB-ID; callbacks run in registration order.
\<close>

definition add_pdo_received_callback :: "16 word \<Rightarrow> ReceivePDOMapping \<Rightarrow> Core \<Rightarrow> Core" where
  "add_pdo_received_callback cob mp c =
     c\<lparr>pdo_received_callbacks := pdo_received_callbacks c @ [(cob, mp)]\<rparr>"

text \<open>
  The common tail of the overloads of \<open>add_receive_pdo_mapping\<close> that bind
  \<open>Device::pdo_received_callback\<close>: the size check in \<open>int\<close> arithmetic, then the
  mapping is pushed to the front, the COB-ID is remembered and the callback registered.
\<close>

definition install_receive_pdo_mapping ::
  "env \<Rightarrow> 16 word \<Rightarrow> Entry \<Rightarrow> string \<Rightarrow> byte \<Rightarrow> 'op Device \<Rightarrow> (error + unit) \<times> 'op Device" where
  "install_receive_pdo_mapping env cob entry nm off d =
     (let type_size = get_type_size env (type entry) in
      if unat off + unat type_size > 8 then (Inl (dictionary_error mapping_size), d)
      else
        let mp = \<lparr>cob_id = cob, entry_name = nm, offset = off\<rparr> in
        (Inr (),
         d\<lparr>m_receive_pdo_mappings := mp # m_receive_pdo_mappings d,
           cob_ids := cob_ids d @ [cob],
           m_core := add_pdo_received_callback cob mp (m_core d)\<rparr>))"

text \<open>
  \<open>add_receive_pdo_mapping(cob_id, entry_name, offset)\<close>: the escaped name is checked
  with \<open>has_entry\<close> (which escapes it once more), then looked up with \<open>operator[]\<close>.
\<close>

definition add_receive_pdo_mapping ::
  "env \<Rightarrow> 16 word \<Rightarrow> string \<Rightarrow> byte \<Rightarrow> 'op Device \<Rightarrow> (error + unit) \<times> 'op Device" where
  "add_receive_pdo_mapping env cob nm off d =
     (let en = escape env nm in
      if \<not> has_entry_name env d en then (Inl (dictionary_error unknown_entry), d)
      else
        case name_to_address_at d en of (a, d1) \<Rightarrow>
        case dictionary_at env d1 a of (entry, d2) \<Rightarrow>
          install_receive_pdo_mapping env cob entry en off d2)"

text \<open>
  \<open>add_receive_pdo_mapping(cob_id, entry_index, entry_subindex, offset)\<close>: there is no
  presence check; \<open>m_dictionary[address]\<close> yields the entry, and the mapping refers to
  it by \<open>entry.name\<close>.
\<close>

definition add_receive_pdo_mapping_by_index ::
  "env \<Rightarrow> 16 word \<Rightarrow> 16 word \<Rightarrow> byte \<Rightarrow> byte \<Rightarrow> 'op Device \<Rightarrow> (error + unit) \<times> 'op Device" where
  "add_receive_pdo_mapping_by_index env cob idx sub off d =
     (case dictionary_at env d (idx, sub) of (entry, d1) \<Rightarrow>
        install_receive_pdo_mapping env cob entry (name entry) off d1)"

text \<open>
  \<open>pdo_received_callback(mapping, data)\<close>: an entry of type \<open>invalid\<close> and a payload
  shorter than offset + type size both end the callback early; otherwise the bytes
  \<open>[offset, offset + type_size)\<close> become the entry's value.
\<close>

definition pdo_received_callback ::
  "env \<Rightarrow> ReceivePDOMapping \<Rightarrow> byte list \<Rightarrow> 'op Device \<Rightarrow> (error + unit) \<times> 'op Device" where
  "pdo_received_callback env mapping data d =
     (let en = escape env (entry_name mapping) in
      case name_to_address_at d en of (a, d1) \<Rightarrow>
      case dictionary_at env d1 a of (entry, d2) \<Rightarrow>
        let off = offset mapping;
            type_size = get_type_size env (type entry)
        in if type entry = invalid then (Inr (), d2)
           else if length data < unat off + unat type_size then (Inr (), d2)
           else
             (case Value_from_bytes env (type entry)
                     (take (unat type_size) (drop (unat off) data)) of
                Inl e \<Rightarrow> (Inl e, d2)
              | Inr v \<Rightarrow>
                  (Inr (), d2\<lparr>m_dictionary := (m_dictionary d2)(a \<mapsto> set_value entry v)\<rparr>)))"

subsection \<open>Remapping a TPDO on the remote device\<close>

text \<open>
  \<open>get_tpdo_indexes\<close>: (communication parameter index, mapping parameter index). The
  \<open>default\<close> branch of the \<open>switch\<close> needs a value outside the enumeration.
\<close>

fun get_tpdo_indexes :: "TPDO_NO \<Rightarrow> 16 word \<times> 16 word" where
  "get_tpdo_indexes TPDO_1 = (0x1800, 0x1A00)"
| "get_tpdo_indexes TPDO_2 = (0x1801, 0x1A01)"
| "get_tpdo_indexes TPDO_3 = (0x1802, 0x1A02)"
| "get_tpdo_indexes TPDO_4 = (0x1803, 0x1A03)"

text \<open>
  \<open>write_entry(index, entries)\<close>: the loop \<open>for (uint8_t i = 0; i < entries.size(); i++)\<close>
  with its 8-bit counters \<open>i\<close> and \<open>offset\<close>, started at \<open>i\<close>. With 256 entries or
  more the counter wraps and the loop ends only by an exception, so the result is
  optional: \<open>None\<close> is a loop that never returns.
\<close>

partial_function (option) write_entry_loop ::
  "env \<Rightarrow> 16 word \<Rightarrow> 32 word list \<Rightarrow> byte \<Rightarrow> byte \<Rightarrow> 'op Device \<Rightarrow> ((error + unit) \<times> 'op Device) option" where
  "write_entry_loop env idx entries i off d =
     (if unat i < length entries then
        (case set_entry env idx (off + 1) (Value_uint32 (entries ! unat i))
                WriteAccessMethod.sdo d of
           (Inl e, d') \<Rightarrow> Some (Inl e, d')
         | (Inr u, d') \<Rightarrow> write_entry_loop env idx entries (i + 1) (off + 1) d')
      else Some (Inr (), d))"

declare write_entry_loop.simps [code]

definition write_entry ::
  "env \<Rightarrow> 16 word \<Rightarrow> 32 word list \<Rightarrow> 'op Device \<Rightarrow> ((error + unit) \<times> 'op Device) option" where
  "write_entry env idx entries d = write_entry_loop env idx entries 0 0 d"

text \<open>
  Sequencing of calls that may throw: the next call runs only after a normal return.
\<close>

definition and_then ::
  "(error + 'a) \<times> 's \<Rightarrow> ('a \<Rightarrow> 's \<Rightarrow> ((error + 'b) \<times> 's) option) \<Rightarrow> ((error + 'b) \<times> 's) option" where
  "and_then r f = (case r of (Inl e, s) \<Rightarrow> Some (Inl e, s) | (Inr x, s) \<Rightarrow> f x s)"

text \<open>
  \<open>map_tpdo_in_device(tpdo_no, entries_to_be_mapped, transmit_type)\<close>, the overload
  without inhibit time and event timer. \<open>-1 ^ cob_id\<close> is the complement of the 32-bit
  COB-ID and \<open>1UL << 31\<close> selects bit 31; the count of entries is cast to \<open>uint8_t\<close>.
\<close>

definition map_tpdo_in_device ::
  "env \<Rightarrow> TPDO_NO \<Rightarrow> 32 word list \<Rightarrow> byte \<Rightarrow> 'op Device \<Rightarrow> ((error + unit) \<times> 'op Device) option" where
  "map_tpdo_in_device env tpdo_no entries_to_be_mapped transmit_type d =
     (let comm_param_idx = fst (get_tpdo_indexes tpdo_no);
          mapp_param_idx = snd (get_tpdo_indexes tpdo_no)
      in
      and_then (get_entry env comm_param_idx 1 ReadAccessMethod.sdo d) (\<lambda>v d1.
      and_then (to_uint32 v, d1) (\<lambda>cob_id0 d1.
        let cob_id1 = cob_id0 XOR ((- 1 XOR cob_id0) AND push_bit 31 1) in
      and_then (set_entry env comm_param_idx 1 (Value_uint32 cob_id1)
                  WriteAccessMethod.sdo d1) (\<lambda>u d2.
      and_then (set_entry env mapp_param_idx 0 (Value_uint8 0)
                  WriteAccessMethod.sdo d2) (\<lambda>u d3.
      case write_entry env mapp_param_idx entries_to_be_mapped d3 of
        None \<Rightarrow> None
      | Some r4 \<Rightarrow>
      and_then r4 (\<lambda>u d4.
      and_then (set_entry env mapp_param_idx 0
                  (Value_uint8 (of_nat (length entries_to_be_mapped)))
                  WriteAccessMethod.sdo d4) (\<lambda>u d5.
      and_then (set_entry env comm_param_idx 2 (Value_uint8 transmit_type)
                  WriteAccessMethod.sdo d5) (\<lambda>u d6.
        let cob_id2 = cob_id1 XOR ((0 XOR cob_id1) AND push_bit 31 1) in
      Some (set_entry env comm_param_idx 1 (Value_uint32 cob_id2)
              WriteAccessMethod.sdo d6)))))))))"

subsection \<open>Vocabulary of the properties\<close>

text \<open>
  The outcome of the attempt number \<open>n\<close> (from 0) of a transfer that is repeated
  without any other request in between.
\<close>

definition attempt_outcome :: "env \<Rightarrow> sdo_request \<Rightarrow> Core \<Rightarrow> nat \<Rightarrow> error + byte list" where
  "attempt_outcome env req c n = sdo_server env (sdo_log c @ replicate n req) req"

fun is_sdo_error :: "error + 'a \<Rightarrow> bool" where
  "is_sdo_error (Inl (sdo_error k code)) = True"
| "is_sdo_error r = False"

text \<open>Every attempt that the repetition policy allows throws some \<open>sdo_error\<close>.\<close>

definition every_attempt_fails :: "env \<Rightarrow> sdo_request \<Rightarrow> Core \<Rightarrow> bool" where
  "every_attempt_fails env req c =
     (\<forall>n < repeats_on_sdo_timeout env + 1. is_sdo_error (attempt_outcome env req c n))"

text \<open>Every such attempt times out.\<close>

definition keeps_timing_out :: "env \<Rightarrow> sdo_request \<Rightarrow> Core \<Rightarrow> bool" where
  "keeps_timing_out env req c =
     (\<forall>n < repeats_on_sdo_timeout env + 1.
        attempt_outcome env req c n = Inl (sdo_error response_timeout None))"

text \<open>Every such attempt is aborted by the server with the given abort code.\<close>

definition keeps_aborting :: "env \<Rightarrow> sdo_request \<Rightarrow> Core \<Rightarrow> 32 word \<Rightarrow> bool" where
  "keeps_aborting env req c code =
     (\<forall>n < repeats_on_sdo_timeout env + 1.
        attempt_outcome env req c n = Inl (sdo_error abort (Some code)))"

text \<open>The Core after \<open>n\<close> more attempts of the request.\<close>

definition after_attempts :: "nat \<Rightarrow> sdo_request \<Rightarrow> Core \<Rightarrow> Core" where
  "after_attempts n req c = c\<lparr>sdo_log := sdo_log c @ replicate n req\<rparr>"

text \<open>The server answers every request: no transfer throws.\<close>

definition server_never_fails :: "env \<Rightarrow> bool" where
  "server_never_fails env = (\<forall>l req. \<exists>data. sdo_server env l req = Inr data)"

text \<open>
  The invariant of dictionary and name index: the name of every entry leads to the
  entry's own address, and every name leads to an address that is present.
\<close>

definition dictionary_invariant :: "'op Device \<Rightarrow> bool" where
  "dictionary_invariant d =
     ((\<forall>a e. m_dictionary d a = Some e \<longrightarrow>
              m_name_to_address d (name e) = Some (index e, subindex e)) \<and>
      (\<forall>n a. m_name_to_address d n = Some a \<longrightarrow> m_dictionary d a \<noteq> None))"

text \<open>
  A sequence of \<open>add_entry\<close> calls, given by their arguments. A call that throws leaves
  the device as it was, and the caller goes on with the next one.
\<close>

type_synonym entry_args = "16 word \<times> byte \<times> string \<times> Type \<times> AccessType"

fun add_entries :: "env \<Rightarrow> entry_args list \<Rightarrow> 'op Device \<Rightarrow> 'op Device" where
  "add_entries env [] d = d"
| "add_entries env ((idx, sub, nm, t, a) # calls) d =
     add_entries env calls (snd (add_entry env idx sub nm t a d))"

text \<open>
  The entry that \<open>pdo_received_callback\<close> finds for a mapping, and the entry that the
  overload of \<open>add_receive_pdo_mapping\<close> by index finds for an address.
\<close>

definition mapped_entry :: "env \<Rightarrow> 'op Device \<Rightarrow> ReceivePDOMapping \<Rightarrow> Entry" where
  "mapped_entry env d mapping =
     (case name_to_address_at d (escape env (entry_name mapping)) of (a, d1) \<Rightarrow>
        fst (dictionary_at env d1 a))"

definition entry_at :: "env \<Rightarrow> 'op Device \<Rightarrow> Address \<Rightarrow> Entry" where
  "entry_at env d a = fst (dictionary_at env d a)"

text \<open>
  The dictionary holds at the address an entry of the type, stored under its own index
  and subindex.
\<close>

definition holds_entry :: "'op Device \<Rightarrow> Address \<Rightarrow> Type \<Rightarrow> bool" where
  "holds_entry d a t =
     (case m_dictionary d a of
        None \<Rightarrow> False
      | Some e \<Rightarrow> type e = t \<and> (index e, subindex e) = a)"

text \<open>
  The requests of a TPDO remapping, in order: the COB-ID is read at subindex 1 of the
  communication parameters and written back with bit 31 set; the count at subindex 0 of
  the mapping parameters is set to 0; the mapping words go to subindexes 1 to k; the
  count is set to k; the transmission type goes to subindex 2; the COB-ID is written
  with bit 31 cleared. A \<open>uint32\<close> is transferred as 4 bytes, a \<open>uint8\<close> as 1 byte.
\<close>

definition tpdo_remap_requests ::
  "byte \<Rightarrow> 16 word \<Rightarrow> 16 word \<Rightarrow> 32 word \<Rightarrow> 32 word list \<Rightarrow> byte \<Rightarrow> sdo_request list" where
  "tpdo_remap_requests node comm mapp cob entries tt =
     [Upload node comm 1,
      Download node comm 1 4 (uint32_to_bytes (set_bit 31 cob)),
      Download node mapp 0 1 [0]] @
     map (\<lambda>j. Download node mapp (of_nat (Suc j)) 4 (uint32_to_bytes (entries ! j)))
       [0 ..< length entries] @
     [Download node mapp 0 1 [of_nat (length entries)],
      Download node comm 2 1 [tt],
      Download node comm 1 4 (uint32_to_bytes (unset_bit 31 cob))]"

text \<open>TPDO n has the number n.\<close>

fun tpdo_number :: "TPDO_NO \<Rightarrow> nat" where
  "tpdo_number TPDO_1 = 1"
| "tpdo_number TPDO_2 = 2"
| "tpdo_number TPDO_3 = 3"
| "tpdo_number TPDO_4 = 4"

subsection \<open>A concrete node\<close>

text \<open>
  A configuration to run the functions on: the widths of CiA 301, names that are
  already canonical, one repetition, and a node with the communication and mapping
  parameters of TPDO 1.
\<close>

definition ex_type_size :: "Type \<Rightarrow> byte" where
  "ex_type_size t =
     (case t of boolean \<Rightarrow> 1 | int8 \<Rightarrow> 1 | uint8 \<Rightarrow> 1 | int16 \<Rightarrow> 2 | uint16 \<Rightarrow> 2
      | int32 \<Rightarrow> 4 | uint32 \<Rightarrow> 4 | real32 \<Rightarrow> 4 | _ \<Rightarrow> 0)"

definition ex_default_Entry :: Entry where
  "ex_default_Entry =
     \<lparr>index = 0, subindex = 0, name = [], type = invalid, access_type = read_write,
      read_access_method = ReadAccessMethod.sdo,
      write_access_method = WriteAccessMethod.sdo,
      m_value = Value_invalid, disabled = False\<rparr>"

definition ex_env :: "(sdo_request list \<Rightarrow> sdo_request \<Rightarrow> error + byte list) \<Rightarrow> env" where
  "ex_env srv =
     \<lparr>escape = (\<lambda>s. s), get_type_size = ex_type_size, repeats_on_sdo_timeout = 1,
      default_Entry = ex_default_Entry, sdo_server = srv\<rparr>"

text \<open>
  Three servers: one that answers every upload with the COB-ID \<open>0x181\<close> and accepts
  every download, one that aborts every transfer with code \<open>0x06020000\<close>, and one that
  never answers.
\<close>

definition srv_ok :: "sdo_request list \<Rightarrow> sdo_request \<Rightarrow> error + byte list" where
  "srv_ok l req =
     (case req of Upload n i s \<Rightarrow> Inr [0x81, 0x01, 0, 0] | Download n i s k bs \<Rightarrow> Inr [])"

definition srv_abort :: "sdo_request list \<Rightarrow> sdo_request \<Rightarrow> error + byte list" where
  "srv_abort l req = Inl (sdo_error abort (Some 0x06020000))"

definition srv_timeout :: "sdo_request list \<Rightarrow> sdo_request \<Rightarrow> error + byte list" where
  "srv_timeout l req = Inl (sdo_error response_timeout None)"

definition ex_core :: Core where
  "ex_core = \<lparr>sdo_log = [], sent_messages = [], pdo_received_callbacks = []\<rparr>"

definition ex_device :: "nat Device" where
  "ex_device =
     \<lparr>m_core = ex_core, m_node_id = 1,
      m_dictionary = map_of
        [((0x1800, 1), Entry_new 0x1800 1 ''tpdo1_cob_id'' uint32 read_write),
         ((0x1800, 2), Entry_new 0x1800 2 ''tpdo1_transmission_type'' uint8 read_write),
         ((0x1A00, 0), Entry_new 0x1A00 0 ''tpdo1_mapping_count'' uint8 read_write),
         ((0x1A00, 1), Entry_new 0x1A00 1 ''tpdo1_mapping_1'' uint32 read_write),
         ((0x1A00, 2), Entry_new 0x1A00 2 ''tpdo1_mapping_2'' uint32 read_write),
         ((0x1A00, 3), Entry_new 0x1A00 3 ''tpdo1_mapping_3'' uint32 read_write)],
      m_name_to_address = map_of
        [(''tpdo1_cob_id'', (0x1800, 1)),
         (''tpdo1_transmission_type'', (0x1800, 2)),
         (''tpdo1_mapping_count'', (0x1A00, 0)),
         (''tpdo1_mapping_1'', (0x1A00, 1)),
         (''tpdo1_mapping_2'', (0x1A00, 2)),
         (''tpdo1_mapping_3'', (0x1A00, 3))],
      m_operations = [''reset'' \<mapsto> 0],
      m_constants = [''gear'' \<mapsto> Value_uint8 1],
      m_receive_pdo_mappings = [], cob_ids = []\<rparr>"

section \<open>Properties\<close>

subsection \<open>Repetition of SDO transfers\<close>

lemma get_entry_via_sdo_loop_fails:
  assumes "\<And>n. i + n \<le> repeats_on_sdo_timeout env \<Longrightarrow>
             is_sdo_error (sdo_server env (sdo_log c @ replicate n (Upload node idx sub))
                             (Upload node idx sub))"
    and "i \<le> repeats_on_sdo_timeout env + 1"
  shows "get_entry_via_sdo_loop env i node idx sub t c =
           (Inl (sdo_error response_timeout None),
            after_attempts (repeats_on_sdo_timeout env + 1 - i) (Upload node idx sub) c)"
  using assms
proof (induction "repeats_on_sdo_timeout env + 1 - i" arbitrary: i c)
  case 0
  then show ?case by (simp add: after_attempts_def)
next
  case (Suc m)
  let ?req = "Upload node idx sub"
  let ?c' = "c\<lparr>sdo_log := sdo_log c @ [?req]\<rparr>"
  from Suc.hyps(2) have lt: "i < repeats_on_sdo_timeout env + 1" by simp
  from Suc.prems(1) [of 0] lt have "is_sdo_error (sdo_server env (sdo_log c) ?req)" by simp
  then obtain k code where
    first: "sdo_server env (sdo_log c) ?req = Inl (sdo_error k code)"
    by (cases "sdo_server env (sdo_log c) ?req" rule: is_sdo_error.cases) auto
  have m: "m = repeats_on_sdo_timeout env + 1 - (i + 1)" using Suc.hyps(2) by simp
  have rest: "is_sdo_error (sdo_server env (sdo_log ?c' @ replicate n ?req) ?req)"
    if "(i + 1) + n \<le> repeats_on_sdo_timeout env" for n
  proof -
    from that have "i + Suc n \<le> repeats_on_sdo_timeout env" by simp
    from Suc.prems(1) [OF this] show ?thesis
      by (simp add: replicate_app_Cons_same)
  qed
  have step: "get_entry_via_sdo_loop env i node idx sub t c =
              get_entry_via_sdo_loop env (i + 1) node idx sub t ?c'"
    using lt first by (subst get_entry_via_sdo_loop.simps) (simp add: sdo_transfer_def)
  have "get_entry_via_sdo_loop env (i + 1) node idx sub t ?c' =
          (Inl (sdo_error response_timeout None),
           after_attempts (repeats_on_sdo_timeout env + 1 - (i + 1)) ?req ?c')"
    using Suc.hyps(1) [OF m rest] lt by simp
  also have "after_attempts (repeats_on_sdo_timeout env + 1 - (i + 1)) ?req ?c' =
             after_attempts (repeats_on_sdo_timeout env + 1 - i) ?req c"
    using Suc.hyps(2) [symmetric] m [symmetric]
    by (simp add: after_attempts_def replicate_app_Cons_same)
  finally show ?case using step by simp
qed

lemma set_entry_via_sdo_loop_fails:
  assumes "\<And>n. i + n \<le> repeats_on_sdo_timeout env \<Longrightarrow>
             is_sdo_error
               (sdo_server env
                  (sdo_log c @ replicate n (Download node idx sub (length (get_bytes v)) (get_bytes v)))
                  (Download node idx sub (length (get_bytes v)) (get_bytes v)))"
    and "i \<le> repeats_on_sdo_timeout env + 1"
  shows "set_entry_via_sdo_loop env i node idx sub v c =
           (Inl (sdo_error response_timeout None),
            after_attempts (repeats_on_sdo_timeout env + 1 - i)
              (Download node idx sub (length (get_bytes v)) (get_bytes v)) c)"
  using assms
proof (induction "repeats_on_sdo_timeout env + 1 - i" arbitrary: i c)
  case 0
  then show ?case by (simp add: after_attempts_def)
next
  case (Suc m)
  let ?req = "Download node idx sub (length (get_bytes v)) (get_bytes v)"
  let ?c' = "c\<lparr>sdo_log := sdo_log c @ [?req]\<rparr>"
  from Suc.hyps(2) have lt: "i < repeats_on_sdo_timeout env + 1" by simp
  from Suc.prems(1) [of 0] lt have "is_sdo_error (sdo_server env (sdo_log c) ?req)" by simp
  then obtain k code where
    first: "sdo_server env (sdo_log c) ?req = Inl (sdo_error k code)"
    by (cases "sdo_server env (sdo_log c) ?req" rule: is_sdo_error.cases) auto
  have m: "m = repeats_on_sdo_timeout env + 1 - (i + 1)" using Suc.hyps(2) by simp
  have rest: "is_sdo_error (sdo_server env (sdo_log ?c' @ replicate n ?req) ?req)"
    if "(i + 1) + n \<le> repeats_on_sdo_timeout env" for n
  proof -
    from that have "i + Suc n \<le> repeats_on_sdo_timeout env" by simp
    from Suc.prems(1) [OF this] show ?thesis
      by (simp add: replicate_app_Cons_same)
  qed
  have step: "set_entry_via_sdo_loop env i node idx sub v c =
              set_entry_via_sdo_loop env (i + 1) node idx sub v ?c'"
    using lt first by (subst set_entry_via_sdo_loop.simps) (simp add: sdo_transfer_def)
  have "set_entry_via_sdo_loop env (i + 1) node idx sub v ?c' =
          (Inl (sdo_error response_timeout None),
           after_attempts (repeats_on_sdo_timeout env + 1 - (i + 1)) ?req ?c')"
    using Suc.hyps(1) [OF m rest] lt by simp
  also have "after_attempts (repeats_on_sdo_timeout env + 1 - (i + 1)) ?req ?c' =
             after_attempts (repeats_on_sdo_timeout env + 1 - i) ?req c"
    using Suc.hyps(2) [symmetric] m [symmetric]
    by (simp add: after_attempts_def replicate_app_Cons_same)
  finally show ?case using step by simp
qed

lemma get_entry_via_sdo_fails:
  assumes "every_attempt_fails env (Upload node idx sub) c"
  shows "get_entry_via_sdo env node idx sub t c =
           (Inl (sdo_error response_timeout None),
            after_attempts (repeats_on_sdo_timeout env + 1) (Upload node idx sub) c)"
  using get_entry_via_sdo_loop_fails [of 0 env c node idx sub t] assms
  by (simp add: get_entry_via_sdo_def every_attempt_fails_def attempt_outcome_def)

lemma set_entry_via_sdo_fails:
  assumes "every_attempt_fails env (Download node idx sub (length (get_bytes v)) (get_bytes v)) c"
  shows "set_entry_via_sdo env node idx sub v c =
           (Inl (sdo_error response_timeout None),
            after_attempts (repeats_on_sdo_timeout env + 1)
              (Download node idx sub (length (get_bytes v)) (get_bytes v)) c)"
  using set_entry_via_sdo_loop_fails [of 0 env c node idx sub v] assms
  by (simp add: set_entry_via_sdo_def every_attempt_fails_def attempt_outcome_def)

lemma keeps_timing_out_fails:
  "keeps_timing_out env req c \<Longrightarrow> every_attempt_fails env req c"
  by (simp add: keeps_timing_out_def every_attempt_fails_def)

lemma keeps_aborting_fails:
  "keeps_aborting env req c code \<Longrightarrow> every_attempt_fails env req c"
  by (simp add: keeps_aborting_def every_attempt_fails_def)


text \<open>
  C4. A transfer that times out at every attempt is attempted exactly
  \<open>repeats_on_sdo_timeout + 1\<close> times, and then the read, respectively the write, throws
  an \<open>sdo_error\<close> of type \<open>response_timeout\<close>. The attempts are the requests appended
  to the log of the Core.
\<close>

theorem sdo_timeout_repetitions:
  "(keeps_timing_out env (Upload node idx sub) c \<longrightarrow>
      get_entry_via_sdo env node idx sub t c =
        (Inl (sdo_error response_timeout None),
         after_attempts (repeats_on_sdo_timeout env + 1) (Upload node idx sub) c)) \<and>
   (keeps_timing_out env (Download node idx sub (length (get_bytes v)) (get_bytes v)) c \<longrightarrow>
      set_entry_via_sdo env node idx sub v c =
        (Inl (sdo_error response_timeout None),
         after_attempts (repeats_on_sdo_timeout env + 1)
           (Download node idx sub (length (get_bytes v)) (get_bytes v)) c))"
  by (simp add: get_entry_via_sdo_fails set_entry_via_sdo_fails keeps_timing_out_fails)

theorem sdo_timeout_repetitions_witness:
  "keeps_timing_out (ex_env srv_timeout) (Upload 1 0x1000 0) ex_core \<and>
   get_entry_via_sdo (ex_env srv_timeout) 1 0x1000 0 uint32 ex_core =
     (Inl (sdo_error response_timeout None),
      ex_core\<lparr>sdo_log := [Upload 1 0x1000 0, Upload 1 0x1000 0]\<rparr>) \<and>
   keeps_timing_out (ex_env srv_timeout) (Download 1 0x1017 0 1 [5]) ex_core \<and>
   set_entry_via_sdo (ex_env srv_timeout) 1 0x1017 0 (Value_uint8 5) ex_core =
     (Inl (sdo_error response_timeout None),
      ex_core\<lparr>sdo_log := [Download 1 0x1017 0 1 [5], Download 1 0x1017 0 1 [5]]\<rparr>)"
  using sdo_timeout_repetitions
    [of "ex_env srv_timeout" 1 "0x1000" 0 ex_core uint32 "Value_uint8 5"]
    sdo_timeout_repetitions
    [of "ex_env srv_timeout" 1 "0x1017" 0 ex_core uint32 "Value_uint8 5"]
  by (simp add: keeps_timing_out_def attempt_outcome_def ex_env_def srv_timeout_def
      after_attempts_def ex_core_def Value_uint8_def numeral_2_eq_2)


text \<open>
  C2 as claimed: an abort is surfaced as the abort it is, after a single attempt. On
  the concrete node, with the server that aborts every transfer with \<open>0x06020000\<close>, the
  read is attempted twice and the exception that leaves \<open>get_entry\<close> has the type
  \<open>response_timeout\<close>.
\<close>

theorem get_entry_abort_counterexample:
  "keeps_aborting (ex_env srv_abort) (Upload 1 0x1800 1) ex_core 0x06020000 \<and>
   fst (get_entry (ex_env srv_abort) 0x1800 1 ReadAccessMethod.sdo ex_device) \<noteq>
     Inl (sdo_error abort (Some 0x06020000)) \<and>
   fst (get_entry (ex_env srv_abort) 0x1800 1 ReadAccessMethod.sdo ex_device) =
     Inl (sdo_error response_timeout None) \<and>
   sdo_log (m_core (snd (get_entry (ex_env srv_abort) 0x1800 1 ReadAccessMethod.sdo ex_device))) =
     [Upload 1 0x1800 1, Upload 1 0x1800 1]"
  by (simp add: keeps_aborting_def attempt_outcome_def get_entry_def ex_device_def ex_env_def
      srv_abort_def get_entry_via_sdo_def sdo_transfer_def Entry_new_def ex_core_def)

text \<open>
  C2, amended. The handler of \<open>get_entry_via_sdo\<close> catches every \<open>sdo_error\<close>, so an
  abort is repeated like a timeout: when every attempt is aborted, \<open>get_entry\<close> with the
  \<open>sdo\<close> access method makes \<open>repeats_on_sdo_timeout + 1\<close> attempts and throws an
  \<open>sdo_error\<close> of type \<open>response_timeout\<close>, which does not carry the abort code.
\<close>

theorem get_entry_abort_is_repeated:
  assumes "m_dictionary d (idx, sub) = Some entry"
    and "keeps_aborting env (Upload (m_node_id d) (index entry) (subindex entry)) (m_core d) code"
  shows "get_entry env idx sub ReadAccessMethod.sdo d =
           (Inl (sdo_error response_timeout None),
            d\<lparr>m_core := after_attempts (repeats_on_sdo_timeout env + 1)
                          (Upload (m_node_id d) (index entry) (subindex entry)) (m_core d)\<rparr>)"
  using assms
  by (simp add: get_entry_def get_entry_via_sdo_fails keeps_aborting_fails)

theorem get_entry_abort_is_repeated_witness:
  "m_dictionary ex_device (0x1800, 2) =
     Some (Entry_new 0x1800 2 ''tpdo1_transmission_type'' uint8 read_write) \<and>
   keeps_aborting (ex_env srv_abort) (Upload 1 0x1800 2) ex_core 0x06020000 \<and>
   get_entry (ex_env srv_abort) 0x1800 2 ReadAccessMethod.sdo ex_device =
     (Inl (sdo_error response_timeout None),
      ex_device\<lparr>m_core := ex_core\<lparr>sdo_log := [Upload 1 0x1800 2, Upload 1 0x1800 2]\<rparr>\<rparr>)"
  using get_entry_abort_is_repeated
    [of ex_device "0x1800" 2 "Entry_new 0x1800 2 ''tpdo1_transmission_type'' uint8 read_write"
        "ex_env srv_abort" "0x06020000"]
  by (simp add: keeps_aborting_def attempt_outcome_def ex_device_def ex_env_def srv_abort_def
      Entry_new_def ex_core_def after_attempts_def numeral_2_eq_2)

subsection \<open>Reading and writing entries\<close>

text \<open>
  C3 as claimed: a read with \<open>pdo_request_and_wait\<close> sends a remote request and returns
  a value updated by the answer. On the concrete node the read of an entry that has
  never been updated returns the invalid value at once; the device and its Core are as
  before, and no frame has been sent.
\<close>

theorem pdo_request_and_wait_counterexample:
  "fst (get_entry (ex_env srv_ok) 0x1800 1 pdo_request_and_wait ex_device) = Inr Value_invalid \<and>
   snd (get_entry (ex_env srv_ok) 0x1800 1 pdo_request_and_wait ex_device) = ex_device \<and>
   sent_messages (m_core (snd (get_entry (ex_env srv_ok) 0x1800 1 pdo_request_and_wait ex_device))) = [] \<and>
   sdo_log (m_core (snd (get_entry (ex_env srv_ok) 0x1800 1 pdo_request_and_wait ex_device))) = []"
  by (simp add: get_entry_def ex_device_def Entry_new_def get_value_def ex_core_def)

text \<open>
  C3, amended. \<open>get_entry\<close> treats \<open>pdo_request_and_wait\<close> like \<open>pdo\<close>: for every entry
  of the dictionary it returns the cached value, which may be invalid, and leaves the
  device and the Core unchanged: nothing is sent and nothing is waited for.
\<close>

theorem get_entry_pdo_request_and_wait_cached:
  assumes "m_dictionary d (idx, sub) = Some entry"
  shows "get_entry env idx sub pdo_request_and_wait d = (Inr (get_value entry), d) \<and>
         get_entry env idx sub pdo_request_and_wait d =
           get_entry env idx sub ReadAccessMethod.pdo d"
  using assms by (simp add: get_entry_def)

theorem get_entry_pdo_request_and_wait_cached_witness:
  "m_dictionary ex_device (0x1A00, 0) =
     Some (Entry_new 0x1A00 0 ''tpdo1_mapping_count'' uint8 read_write) \<and>
   get_entry (ex_env srv_ok) 0x1A00 0 pdo_request_and_wait ex_device =
     (Inr Value_invalid, ex_device)"
  using get_entry_pdo_request_and_wait_cached
    [of ex_device "0x1A00" 0 "Entry_new 0x1A00 0 ''tpdo1_mapping_count'' uint8 read_write"
        "ex_env srv_ok"]
  by (simp add: ex_device_def Entry_new_def get_value_def)

text \<open>
  C9. \<open>set_entry\<close> with the \<open>sdo\<close> access method replaces the cached value before the
  download. For every entry and every value of the entry's type: when every attempt of
  the download fails, \<open>set_entry\<close> throws the \<open>sdo_error\<close>, and a read with the \<open>pdo\<close>
  access method afterwards returns the new value.
\<close>

theorem set_entry_sdo_failure_keeps_new_value:
  assumes "m_dictionary d (idx, sub) = Some entry"
    and "value_type v = type entry"
    and "every_attempt_fails env
           (Download (m_node_id d) (index entry) (subindex entry)
              (length (get_bytes v)) (get_bytes v)) (m_core d)"
  shows "\<exists>d'. set_entry env idx sub v WriteAccessMethod.sdo d =
                  (Inl (sdo_error response_timeout None), d') \<and>
              get_entry env idx sub ReadAccessMethod.pdo d' = (Inr v, d')"
  using assms
  by (simp add: set_entry_def get_entry_def set_entry_via_sdo_fails set_value_def
      get_value_def Let_def)

theorem set_entry_sdo_failure_keeps_new_value_witness:
  "m_dictionary ex_device (0x1800, 2) =
     Some (Entry_new 0x1800 2 ''tpdo1_transmission_type'' uint8 read_write) \<and>
   every_attempt_fails (ex_env srv_timeout) (Download 1 0x1800 2 1 [255]) ex_core \<and>
   get_entry (ex_env srv_timeout) 0x1800 2 ReadAccessMethod.pdo ex_device = (Inr Value_invalid, ex_device) \<and>
   (\<exists>d'. set_entry (ex_env srv_timeout) 0x1800 2 (Value_uint8 255) WriteAccessMethod.sdo ex_device =
            (Inl (sdo_error response_timeout None), d') \<and>
         get_entry (ex_env srv_timeout) 0x1800 2 ReadAccessMethod.pdo d' = (Inr (Value_uint8 255), d'))"
  using set_entry_sdo_failure_keeps_new_value
    [of ex_device "0x1800" 2 "Entry_new 0x1800 2 ''tpdo1_transmission_type'' uint8 read_write"
        "Value_uint8 255" "ex_env srv_timeout"]
  by (simp add: every_attempt_fails_def attempt_outcome_def ex_device_def ex_env_def
      srv_timeout_def Entry_new_def ex_core_def Value_uint8_def get_entry_def get_value_def
      numeral_2_eq_2)


subsection \<open>Names that are taken\<close>

text \<open>
  C5 as claimed: each of \<open>add_entry\<close>, \<open>add_constant\<close> and \<open>add_operation\<close> throws for
  a name that exists and leaves the binding as it is. On the concrete node the constant
  \<open>gear\<close> and the operation \<open>reset\<close> exist; adding them again returns normally and
  the names are bound to the new values.
\<close>

theorem add_constant_collision_counterexample:
  "m_constants ex_device (escape (ex_env srv_ok) ''gear'') = Some (Value_uint8 1) \<and>
   fst (add_constant (ex_env srv_ok) ''gear'' (Value_uint8 2) ex_device) = Inr () \<and>
   m_constants (snd (add_constant (ex_env srv_ok) ''gear'' (Value_uint8 2) ex_device)) ''gear'' =
     Some (Value_uint8 2) \<and>
   Value_uint8 2 \<noteq> Value_uint8 1 \<and>
   m_operations ex_device (escape (ex_env srv_ok) ''reset'') = Some 0 \<and>
   fst (add_operation (ex_env srv_ok) ''reset'' (7::nat) ex_device) = Inr () \<and>
   m_operations (snd (add_operation (ex_env srv_ok) ''reset'' (7::nat) ex_device)) ''reset'' = Some 7"
  by (simp add: add_constant_def add_operation_def ex_device_def ex_env_def Value_uint8_def)

text \<open>
  C5, amended. Only \<open>add_entry\<close> refuses a name that exists: it throws \<open>canopen_error\<close>
  and leaves the device unchanged. \<open>add_operation\<close> and \<open>add_constant\<close> return normally
  for a name that exists and bind it to the new operation or constant.
\<close>

theorem add_with_existing_name:
  "(m_name_to_address d (escape env nm) \<noteq> None \<longrightarrow>
      add_entry env idx sub nm t a d = (Inl canopen_error, d)) \<and>
   (m_operations d (escape env nm) \<noteq> None \<longrightarrow>
      fst (add_operation env nm operation d) = Inr () \<and>
      m_operations (snd (add_operation env nm operation d)) (escape env nm) = Some operation) \<and>
   (m_constants d (escape env nm) \<noteq> None \<longrightarrow>
      fst (add_constant env nm v d) = Inr () \<and>
      m_constants (snd (add_constant env nm v d)) (escape env nm) = Some v)"
  by (simp add: add_entry_def add_operation_def add_constant_def Let_def)

theorem add_with_existing_name_witness:
  "m_name_to_address ex_device (escape (ex_env srv_ok) ''tpdo1_cob_id'') \<noteq> None \<and>
   add_entry (ex_env srv_ok) 0x2000 0 ''tpdo1_cob_id'' uint16 read_only ex_device =
     (Inl canopen_error, ex_device) \<and>
   m_operations ex_device (escape (ex_env srv_ok) ''reset'') \<noteq> None \<and>
   m_operations (snd (add_operation (ex_env srv_ok) ''reset'' 7 ex_device))
     (escape (ex_env srv_ok) ''reset'') = Some 7 \<and>
   m_constants ex_device (escape (ex_env srv_ok) ''gear'') \<noteq> None \<and>
   m_constants (snd (add_constant (ex_env srv_ok) ''gear'' (Value_uint8 2) ex_device))
     (escape (ex_env srv_ok) ''gear'') = Some (Value_uint8 2)"
  using add_with_existing_name
    [of ex_device "ex_env srv_ok" "''tpdo1_cob_id''" "0x2000" 0 uint16 read_only]
    add_with_existing_name
    [of ex_device "ex_env srv_ok" "''reset''" 0 0 uint16 read_only 7]
    add_with_existing_name
    [of ex_device "ex_env srv_ok" "''gear''" 0 0 uint16 read_only 7 "Value_uint8 2"]
  by (simp add: ex_device_def ex_env_def)

subsection \<open>Dictionary and name index\<close>

lemma add_entry_invariant:
  assumes "dictionary_invariant d"
  shows "dictionary_invariant (snd (add_entry env idx sub nm t a d))"
proof (cases "fst (add_entry env idx sub nm t a d)")
  case (Inl e)
  then have "snd (add_entry env idx sub nm t a d) = d"
    by (simp add: add_entry_def Let_def split: if_splits)
  with assms show ?thesis by simp
next
  case (Inr u)
  let ?en = "escape env nm"
  from Inr have free: "m_name_to_address d ?en = None" "m_dictionary d (idx, sub) = None"
    by (cases "m_name_to_address d ?en"; cases "m_dictionary d (idx, sub)";
        simp add: add_entry_def Let_def has_entry_def)+
  then have after: "snd (add_entry env idx sub nm t a d) =
      d\<lparr>m_dictionary := (m_dictionary d)((idx, sub) \<mapsto> Entry_new idx sub ?en t a),
        m_name_to_address := (m_name_to_address d)(?en \<mapsto> (idx, sub))\<rparr>"
    by (simp add: add_entry_def Let_def has_entry_def)
  have inv1: "m_name_to_address d (name e) = Some (index e, subindex e)"
    if "m_dictionary d b = Some e" for b e
    using assms that unfolding dictionary_invariant_def by blast
  have inv2: "m_dictionary d b \<noteq> None" if "m_name_to_address d n = Some b" for n b
    using assms that unfolding dictionary_invariant_def by blast
  have names: "name e \<noteq> ?en" if "m_dictionary d b = Some e" for b e
    using inv1 [OF that] free(1) by auto
  show ?thesis
    unfolding after dictionary_invariant_def
  proof (intro conjI allI impI)
    fix b e
    assume "m_dictionary
              (d\<lparr>m_dictionary := (m_dictionary d)((idx, sub) \<mapsto> Entry_new idx sub ?en t a),
                 m_name_to_address := (m_name_to_address d)(?en \<mapsto> (idx, sub))\<rparr>) b = Some e"
    then have e: "(b = (idx, sub) \<and> e = Entry_new idx sub ?en t a) \<or>
                  (b \<noteq> (idx, sub) \<and> m_dictionary d b = Some e)"
      by (auto split: if_splits)
    then show "m_name_to_address
              (d\<lparr>m_dictionary := (m_dictionary d)((idx, sub) \<mapsto> Entry_new idx sub ?en t a),
                 m_name_to_address := (m_name_to_address d)(?en \<mapsto> (idx, sub))\<rparr>) (name e) =
            Some (index e, subindex e)"
    proof
      assume "b = (idx, sub) \<and> e = Entry_new idx sub ?en t a"
      then show ?thesis by (simp add: Entry_new_def)
    next
      assume old: "b \<noteq> (idx, sub) \<and> m_dictionary d b = Some e"
      then have "name e \<noteq> ?en" using names by blast
      moreover have "m_name_to_address d (name e) = Some (index e, subindex e)"
        using inv1 old by blast
      ultimately show ?thesis by simp
    qed
  next
    fix n b
    assume "m_name_to_address
              (d\<lparr>m_dictionary := (m_dictionary d)((idx, sub) \<mapsto> Entry_new idx sub ?en t a),
                 m_name_to_address := (m_name_to_address d)(?en \<mapsto> (idx, sub))\<rparr>) n = Some b"
    then have "b = (idx, sub) \<or> m_name_to_address d n = Some b"
      by (auto split: if_splits)
    then have "b = (idx, sub) \<or> m_dictionary d b \<noteq> None"
      using inv2 by blast
    then show "m_dictionary
              (d\<lparr>m_dictionary := (m_dictionary d)((idx, sub) \<mapsto> Entry_new idx sub ?en t a),
                 m_name_to_address := (m_name_to_address d)(?en \<mapsto> (idx, sub))\<rparr>) b \<noteq> None"
      by auto
  qed
qed

lemma add_entries_invariant:
  "dictionary_invariant d \<Longrightarrow> dictionary_invariant (add_entries env calls d)"
proof (induction calls arbitrary: d)
  case Nil
  then show ?case by simp
next
  case (Cons call calls)
  obtain idx sub nm t a where call: "call = (idx, sub, nm, t, a)"
    by (cases call) auto
  from Cons.prems have "dictionary_invariant (snd (add_entry env idx sub nm t a d))"
    by (rule add_entry_invariant)
  then show ?case using Cons.IH call by simp
qed

text \<open>
  C6. A new Device satisfies the invariant of dictionary and name index, and every
  sequence of \<open>add_entry\<close> calls keeps it: afterwards the name of every entry of the
  dictionary leads to the entry's address, and every name of the name index leads to an
  address that is present in the dictionary.
\<close>

theorem add_entry_keeps_dictionary_invariant:
  "dictionary_invariant (Device_new c node_id :: 'op Device) \<and>
   (dictionary_invariant (d :: 'op Device) \<longrightarrow>
      dictionary_invariant (add_entries env calls d))"
  by (simp add: add_entries_invariant) (simp add: dictionary_invariant_def Device_new_def)

theorem add_entry_keeps_dictionary_invariant_witness:
  "dictionary_invariant (Device_new ex_core 1 :: nat Device) \<and>
   dictionary_invariant
     (add_entries (ex_env srv_ok)
        [(0x1000, 0, ''device_type'', uint32, read_only),
         (0x1017, 0, ''producer_heartbeat_time'', uint16, read_write)]
        (Device_new ex_core 1 :: nat Device)) \<and>
   m_dictionary
     (add_entries (ex_env srv_ok)
        [(0x1000, 0, ''device_type'', uint32, read_only),
         (0x1017, 0, ''producer_heartbeat_time'', uint16, read_write)]
        (Device_new ex_core 1 :: nat Device)) (0x1017, 0) =
     Some (Entry_new 0x1017 0 ''producer_heartbeat_time'' uint16 read_write) \<and>
   m_name_to_address
     (add_entries (ex_env srv_ok)
        [(0x1000, 0, ''device_type'', uint32, read_only),
         (0x1017, 0, ''producer_heartbeat_time'', uint16, read_write)]
        (Device_new ex_core 1 :: nat Device)) ''producer_heartbeat_time'' = Some (0x1017, 0)"
  using add_entry_keeps_dictionary_invariant
    [of ex_core 1 "Device_new ex_core 1 :: nat Device" "ex_env srv_ok"
        "[(0x1000, 0, ''device_type'', uint32, read_only),
          (0x1017, 0, ''producer_heartbeat_time'', uint16, read_write)]"]
  by (simp add: add_entry_def Device_new_def has_entry_def ex_env_def Let_def)


subsection \<open>Receive PDO mappings\<close>

lemma install_receive_pdo_mapping_too_long:
  "8 < unat off + unat (get_type_size env (type entry)) \<Longrightarrow>
   install_receive_pdo_mapping env cob entry nm off d = (Inl (dictionary_error mapping_size), d)"
  by (simp add: install_receive_pdo_mapping_def)

lemma install_receive_pdo_mapping_returns:
  "fst (install_receive_pdo_mapping env cob entry nm off d) = Inr () \<Longrightarrow>
   unat off + unat (get_type_size env (type entry)) \<le> 8"
  by (simp add: install_receive_pdo_mapping_def Let_def split: if_splits)

lemma lookups_keep_registrations:
  "m_receive_pdo_mappings (snd (name_to_address_at d n)) = m_receive_pdo_mappings d"
  "cob_ids (snd (name_to_address_at d n)) = cob_ids d"
  "m_core (snd (name_to_address_at d n)) = m_core d"
  "m_receive_pdo_mappings (snd (dictionary_at env d a)) = m_receive_pdo_mappings d"
  "cob_ids (snd (dictionary_at env d a)) = cob_ids d"
  "m_core (snd (dictionary_at env d a)) = m_core d"
  by (simp_all add: name_to_address_at_def dictionary_at_def split: option.splits)

text \<open>
  C7. Both overloads of \<open>add_receive_pdo_mapping\<close>, by name and by index, compare
  offset + type size of the entry they find with 8. When the sum exceeds 8 the call
  throws a \<open>dictionary_error\<close> of type \<open>mapping_size\<close>, and the list of mappings, the
  remembered COB-IDs and the Core with its callbacks are as before. A call that returns
  normally has installed a mapping with offset + type size at most 8.
\<close>

theorem receive_pdo_mapping_size_checked:
  "(has_entry_name env d (escape env nm) \<and>
    8 < unat off + unat (get_type_size env
          (type (mapped_entry env d \<lparr>cob_id = cob, entry_name = nm, offset = off\<rparr>))) \<longrightarrow>
      fst (add_receive_pdo_mapping env cob nm off d) = Inl (dictionary_error mapping_size) \<and>
      m_receive_pdo_mappings (snd (add_receive_pdo_mapping env cob nm off d)) =
        m_receive_pdo_mappings d \<and>
      cob_ids (snd (add_receive_pdo_mapping env cob nm off d)) = cob_ids d \<and>
      m_core (snd (add_receive_pdo_mapping env cob nm off d)) = m_core d) \<and>
   (fst (add_receive_pdo_mapping env cob nm off d) = Inr () \<longrightarrow>
      unat off + unat (get_type_size env
          (type (mapped_entry env d \<lparr>cob_id = cob, entry_name = nm, offset = off\<rparr>))) \<le> 8) \<and>
   (8 < unat off + unat (get_type_size env (type (entry_at env d (idx, sub)))) \<longrightarrow>
      fst (add_receive_pdo_mapping_by_index env cob idx sub off d) =
        Inl (dictionary_error mapping_size) \<and>
      m_receive_pdo_mappings (snd (add_receive_pdo_mapping_by_index env cob idx sub off d)) =
        m_receive_pdo_mappings d \<and>
      cob_ids (snd (add_receive_pdo_mapping_by_index env cob idx sub off d)) = cob_ids d \<and>
      m_core (snd (add_receive_pdo_mapping_by_index env cob idx sub off d)) = m_core d) \<and>
   (fst (add_receive_pdo_mapping_by_index env cob idx sub off d) = Inr () \<longrightarrow>
      unat off + unat (get_type_size env (type (entry_at env d (idx, sub)))) \<le> 8)"
proof (intro conjI impI)
  let ?en = "escape env nm"
  obtain a d1 where l1: "name_to_address_at d ?en = (a, d1)" by (cases "name_to_address_at d ?en")
  obtain e d2 where l2: "dictionary_at env d1 a = (e, d2)" by (cases "dictionary_at env d1 a")
  have me: "mapped_entry env d \<lparr>cob_id = cob, entry_name = nm, offset = off\<rparr> = e"
    by (simp add: mapped_entry_def l1 l2)
  have regs: "m_receive_pdo_mappings d2 = m_receive_pdo_mappings d" "cob_ids d2 = cob_ids d"
    "m_core d2 = m_core d"
    using lookups_keep_registrations(1-3) [of d ?en]
      lookups_keep_registrations(4-6) [of env d1 a] l1 l2 by simp_all
  {
    assume h: "has_entry_name env d ?en \<and>
      8 < unat off + unat (get_type_size env
            (type (mapped_entry env d \<lparr>cob_id = cob, entry_name = nm, offset = off\<rparr>)))"
    then have r: "add_receive_pdo_mapping env cob nm off d = (Inl (dictionary_error mapping_size), d2)"
      using me by (simp add: add_receive_pdo_mapping_def Let_def l1 l2
          install_receive_pdo_mapping_too_long)
    show "fst (add_receive_pdo_mapping env cob nm off d) = Inl (dictionary_error mapping_size)"
      using r by simp
    show "m_receive_pdo_mappings (snd (add_receive_pdo_mapping env cob nm off d)) =
            m_receive_pdo_mappings d"
      using r regs by simp
    show "cob_ids (snd (add_receive_pdo_mapping env cob nm off d)) = cob_ids d"
      using r regs by simp
    show "m_core (snd (add_receive_pdo_mapping env cob nm off d)) = m_core d"
      using r regs by simp
  }
  {
    assume "fst (add_receive_pdo_mapping env cob nm off d) = Inr ()"
    then have "fst (install_receive_pdo_mapping env cob e ?en off d2) = Inr ()"
      by (simp add: add_receive_pdo_mapping_def Let_def l1 l2 split: if_splits)
    then show "unat off + unat (get_type_size env
          (type (mapped_entry env d \<lparr>cob_id = cob, entry_name = nm, offset = off\<rparr>))) \<le> 8"
      using me install_receive_pdo_mapping_returns by simp
  }
  obtain e' d' where l3: "dictionary_at env d (idx, sub) = (e', d')"
    by (cases "dictionary_at env d (idx, sub)")
  have regs': "m_receive_pdo_mappings d' = m_receive_pdo_mappings d" "cob_ids d' = cob_ids d"
    "m_core d' = m_core d"
    using lookups_keep_registrations(4-6) [of env d "(idx, sub)"] l3 by simp_all
  {
    assume "8 < unat off + unat (get_type_size env (type (entry_at env d (idx, sub))))"
    then have r: "add_receive_pdo_mapping_by_index env cob idx sub off d =
        (Inl (dictionary_error mapping_size), d')"
      by (simp add: add_receive_pdo_mapping_by_index_def entry_at_def l3
          install_receive_pdo_mapping_too_long)
    show "fst (add_receive_pdo_mapping_by_index env cob idx sub off d) =
            Inl (dictionary_error mapping_size)"
      using r by simp
    show "m_receive_pdo_mappings (snd (add_receive_pdo_mapping_by_index env cob idx sub off d)) =
            m_receive_pdo_mappings d"
      using r regs' by simp
    show "cob_ids (snd (add_receive_pdo_mapping_by_index env cob idx sub off d)) = cob_ids d"
      using r regs' by simp
    show "m_core (snd (add_receive_pdo_mapping_by_index env cob idx sub off d)) = m_core d"
      using r regs' by simp
  }
  {
    assume "fst (add_receive_pdo_mapping_by_index env cob idx sub off d) = Inr ()"
    then have "fst (install_receive_pdo_mapping env cob e' (name e') off d') = Inr ()"
      by (simp add: add_receive_pdo_mapping_by_index_def l3)
    then show "unat off + unat (get_type_size env (type (entry_at env d (idx, sub)))) \<le> 8"
      using install_receive_pdo_mapping_returns by (simp add: entry_at_def l3)
  }
qed


theorem receive_pdo_mapping_size_checked_witness:
  "has_entry_name (ex_env srv_ok) ex_device (escape (ex_env srv_ok) ''tpdo1_cob_id'') \<and>
   8 < unat (6 :: byte) + unat (get_type_size (ex_env srv_ok)
         (type (mapped_entry (ex_env srv_ok) ex_device
            \<lparr>cob_id = 0x181, entry_name = ''tpdo1_cob_id'', offset = 6\<rparr>))) \<and>
   fst (add_receive_pdo_mapping (ex_env srv_ok) 0x181 ''tpdo1_cob_id'' 6 ex_device) =
     Inl (dictionary_error mapping_size) \<and>
   m_receive_pdo_mappings
     (snd (add_receive_pdo_mapping (ex_env srv_ok) 0x181 ''tpdo1_cob_id'' 6 ex_device)) = [] \<and>
   8 < unat (6 :: byte) + unat (get_type_size (ex_env srv_ok)
         (type (entry_at (ex_env srv_ok) ex_device (0x1800, 1)))) \<and>
   fst (add_receive_pdo_mapping_by_index (ex_env srv_ok) 0x181 0x1800 1 6 ex_device) =
     Inl (dictionary_error mapping_size) \<and>
   pdo_received_callbacks (m_core
     (snd (add_receive_pdo_mapping_by_index (ex_env srv_ok) 0x181 0x1800 1 6 ex_device))) = [] \<and>
   fst (add_receive_pdo_mapping (ex_env srv_ok) 0x181 ''tpdo1_cob_id'' 4 ex_device) = Inr () \<and>
   fst (add_receive_pdo_mapping_by_index (ex_env srv_ok) 0x181 0x1800 1 4 ex_device) = Inr () \<and>
   unat (4 :: byte) + unat (get_type_size (ex_env srv_ok)
         (type (entry_at (ex_env srv_ok) ex_device (0x1800, 1)))) \<le> 8"
  using receive_pdo_mapping_size_checked
    [of "ex_env srv_ok" ex_device "''tpdo1_cob_id''" 6 "0x181" "0x1800" 1]
    receive_pdo_mapping_size_checked
    [of "ex_env srv_ok" ex_device "''tpdo1_cob_id''" 4 "0x181" "0x1800" 1]
  by (simp add: has_entry_name_def has_entry_def mapped_entry_def entry_at_def
      name_to_address_at_def dictionary_at_def add_receive_pdo_mapping_def
      add_receive_pdo_mapping_by_index_def install_receive_pdo_mapping_def
      ex_device_def ex_env_def ex_type_size_def Entry_new_def ex_core_def Let_def)

text \<open>
  C8. When the payload of a received PDO is shorter than offset + type size of the
  mapped entry, \<open>pdo_received_callback\<close> returns normally and every entry of the
  dictionary is as before, the mapped entry and its cached value included. For a
  mapping whose name and address are present, the whole device is unchanged.
\<close>

theorem pdo_received_callback_short_payload:
  assumes "length data <
             unat (offset mapping) + unat (get_type_size env (type (mapped_entry env d mapping)))"
  shows "fst (pdo_received_callback env mapping data d) = Inr () \<and>
         (\<forall>a e. m_dictionary d a = Some e \<longrightarrow>
                m_dictionary (snd (pdo_received_callback env mapping data d)) a = Some e) \<and>
         (m_name_to_address d (escape env (entry_name mapping)) = Some b \<and>
          m_dictionary d b = Some entry \<longrightarrow>
            pdo_received_callback env mapping data d = (Inr (), d))"
proof -
  let ?en = "escape env (entry_name mapping)"
  obtain a d1 where l1: "name_to_address_at d ?en = (a, d1)" by (cases "name_to_address_at d ?en")
  obtain e d2 where l2: "dictionary_at env d1 a = (e, d2)" by (cases "dictionary_at env d1 a")
  have me: "mapped_entry env d mapping = e"
    by (simp add: mapped_entry_def l1 l2)
  have r: "pdo_received_callback env mapping data d = (Inr (), d2)"
    using assms me by (simp add: pdo_received_callback_def Let_def l1 l2)
  have d1: "m_dictionary d1 = m_dictionary d"
    using l1 by (auto simp: name_to_address_at_def split: option.splits)
  have keep: "m_dictionary d2 x = Some y" if "m_dictionary d x = Some y" for x y
    using l2 that d1 by (auto simp: dictionary_at_def split: option.splits)
  have same: "d2 = d"
    if "m_name_to_address d ?en = Some b \<and> m_dictionary d b = Some entry"
    using that l1 l2 by (auto simp: name_to_address_at_def dictionary_at_def)
  show ?thesis using r keep same by simp
qed

theorem pdo_received_callback_short_payload_witness:
  "length [0x10, 0x27, 0 :: byte] <
     unat (offset \<lparr>cob_id = 0x181, entry_name = ''tpdo1_cob_id'', offset = 0\<rparr>) +
     unat (get_type_size (ex_env srv_ok)
       (type (mapped_entry (ex_env srv_ok) ex_device
          \<lparr>cob_id = 0x181, entry_name = ''tpdo1_cob_id'', offset = 0\<rparr>))) \<and>
   m_name_to_address ex_device (escape (ex_env srv_ok) ''tpdo1_cob_id'') = Some (0x1800, 1) \<and>
   m_dictionary ex_device (0x1800, 1) =
     Some (Entry_new 0x1800 1 ''tpdo1_cob_id'' uint32 read_write) \<and>
   pdo_received_callback (ex_env srv_ok)
     \<lparr>cob_id = 0x181, entry_name = ''tpdo1_cob_id'', offset = 0\<rparr> [0x10, 0x27, 0] ex_device =
     (Inr (), ex_device) \<and>
   m_dictionary (snd (pdo_received_callback (ex_env srv_ok)
     \<lparr>cob_id = 0x181, entry_name = ''tpdo1_cob_id'', offset = 0\<rparr> [0x10, 0x27, 0, 0] ex_device))
     (0x1800, 1) =
     Some ((Entry_new 0x1800 1 ''tpdo1_cob_id'' uint32 read_write)
             \<lparr>m_value := Value uint32 [0x10, 0x27, 0, 0]\<rparr>)"
  using pdo_received_callback_short_payload
    [of "[0x10, 0x27, 0]" "\<lparr>cob_id = 0x181, entry_name = ''tpdo1_cob_id'', offset = 0\<rparr>"
        "ex_env srv_ok" ex_device "(0x1800, 1)"
        "Entry_new 0x1800 1 ''tpdo1_cob_id'' uint32 read_write"]
  by (simp add: mapped_entry_def name_to_address_at_def dictionary_at_def
      pdo_received_callback_def Value_from_bytes_def set_value_def
      ex_device_def ex_env_def ex_type_size_def Entry_new_def Let_def)

text \<open>
  C10. The overload of \<open>add_receive_pdo_mapping\<close> by index does not check that the
  entry exists. For an address that is absent from the dictionary it never throws a
  \<open>dictionary_error\<close> of type \<open>unknown_entry\<close>, and afterwards the dictionary holds a
  default-constructed entry at the address. Past its size check, that is with offset +
  type size of the default entry at most 8, it returns normally and has registered a
  mapping and a callback that refer to the new entry by its name.
\<close>

theorem add_receive_pdo_mapping_by_index_unchecked:
  assumes "m_dictionary d (idx, sub) = None"
  shows "fst (add_receive_pdo_mapping_by_index env cob idx sub off d) \<noteq>
           Inl (dictionary_error unknown_entry) \<and>
         m_dictionary (snd (add_receive_pdo_mapping_by_index env cob idx sub off d)) (idx, sub) =
           Some (default_Entry env) \<and>
         (unat off + unat (get_type_size env (type (default_Entry env))) \<le> 8 \<longrightarrow>
            add_receive_pdo_mapping_by_index env cob idx sub off d =
              (Inr (),
               d\<lparr>m_dictionary := (m_dictionary d)((idx, sub) \<mapsto> default_Entry env),
                 m_receive_pdo_mappings :=
                   \<lparr>cob_id = cob, entry_name = name (default_Entry env), offset = off\<rparr> #
                   m_receive_pdo_mappings d,
                 cob_ids := cob_ids d @ [cob],
                 m_core := add_pdo_received_callback cob
                   \<lparr>cob_id = cob, entry_name = name (default_Entry env), offset = off\<rparr>
                   (m_core d)\<rparr>))"
  using assms
  by (simp add: add_receive_pdo_mapping_by_index_def dictionary_at_def
      install_receive_pdo_mapping_def Let_def)

theorem add_receive_pdo_mapping_by_index_unchecked_witness:
  "m_dictionary ex_device (0x6041, 0) = None \<and>
   unat (4 :: byte) + unat (get_type_size (ex_env srv_ok) (type (default_Entry (ex_env srv_ok)))) \<le> 8 \<and>
   fst (add_receive_pdo_mapping_by_index (ex_env srv_ok) 0x181 0x6041 0 4 ex_device) = Inr () \<and>
   m_dictionary (snd (add_receive_pdo_mapping_by_index (ex_env srv_ok) 0x181 0x6041 0 4 ex_device))
     (0x6041, 0) = Some ex_default_Entry \<and>
   m_receive_pdo_mappings
     (snd (add_receive_pdo_mapping_by_index (ex_env srv_ok) 0x181 0x6041 0 4 ex_device)) =
     [\<lparr>cob_id = 0x181, entry_name = [], offset = 4\<rparr>] \<and>
   pdo_received_callbacks (m_core
     (snd (add_receive_pdo_mapping_by_index (ex_env srv_ok) 0x181 0x6041 0 4 ex_device))) =
     [(0x181, \<lparr>cob_id = 0x181, entry_name = [], offset = 4\<rparr>)]"
  using add_receive_pdo_mapping_by_index_unchecked
    [where d = ex_device and idx = "0x6041" and sub = 0 and env = "ex_env srv_ok" and off = 4
       and cob = "0x181"]
  by (simp add: add_pdo_received_callback_def ex_device_def ex_env_def ex_type_size_def
      ex_default_Entry_def ex_core_def)

subsection \<open>Remapping a TPDO\<close>

lemma holds_entryD:
  "holds_entry d a t \<Longrightarrow> \<exists>e. m_dictionary d a = Some e \<and> type e = t \<and> index e = fst a \<and> subindex e = snd a"
  by (cases a) (auto simp: holds_entry_def split: option.splits)

lemma set_entry_sdo_ok:
  assumes "holds_entry d (i, s) (value_type v)" and "server_never_fails env"
  shows "\<exists>d'. set_entry env i s v WriteAccessMethod.sdo d = (Inr (), d') \<and>
              sdo_log (m_core d') =
                sdo_log (m_core d) @ [Download (m_node_id d) i s (length (get_bytes v)) (get_bytes v)] \<and>
              m_node_id d' = m_node_id d \<and>
              (\<forall>a t. holds_entry d a t \<longrightarrow> holds_entry d' a t)"
proof -
  from holds_entryD [OF assms(1)] obtain e where
    e: "m_dictionary d (i, s) = Some e" "type e = value_type v" "index e = i" "subindex e = s"
    by auto
  let ?req = "Download (m_node_id d) i s (length (get_bytes v)) (get_bytes v)"
  from assms(2) obtain data where
    data: "sdo_server env (sdo_log (m_core d)) ?req = Inr data"
    unfolding server_never_fails_def by blast
  have via: "set_entry_via_sdo env (m_node_id d) i s v (m_core d) =
               (Inr (), (m_core d)\<lparr>sdo_log := sdo_log (m_core d) @ [?req]\<rparr>)"
    unfolding set_entry_via_sdo_def
    by (subst set_entry_via_sdo_loop.simps) (simp add: sdo_transfer_def data)
  let ?d' = "d\<lparr>m_dictionary := (m_dictionary d)((i, s) \<mapsto> set_value e v),
               m_core := (m_core d)\<lparr>sdo_log := sdo_log (m_core d) @ [?req]\<rparr>\<rparr>"
  have r: "set_entry env i s v WriteAccessMethod.sdo d = (Inr (), ?d')"
    using e via by (simp add: set_entry_def Let_def)
  have keep: "holds_entry ?d' a t" if "holds_entry d a t" for a t
  proof (cases "a = (i, s)")
    case True
    with that e(1) show ?thesis by (simp add: holds_entry_def set_value_def)
  next
    case False
    with that show ?thesis by (simp add: holds_entry_def)
  qed
  show ?thesis using r keep by auto
qed

lemma unat_byte_Suc: "unat (i :: byte) < 255 \<Longrightarrow> unat (i + 1) = Suc (unat i)"
  by (simp add: unat_word_ariths)

lemma write_entry_loop_ok:
  assumes "server_never_fails env" and "length entries \<le> 255"
    and "unat i \<le> length entries"
    and "\<And>j. unat i < j \<Longrightarrow> j \<le> length entries \<Longrightarrow> holds_entry d (idx, of_nat j) uint32"
  shows "\<exists>d'. write_entry_loop env idx entries i i d = Some (Inr (), d') \<and>
              sdo_log (m_core d') =
                sdo_log (m_core d) @
                map (\<lambda>j. Download (m_node_id d) idx (of_nat (Suc j)) 4 (uint32_to_bytes (entries ! j)))
                  [unat i ..< length entries] \<and>
              m_node_id d' = m_node_id d \<and>
              (\<forall>a t. holds_entry d a t \<longrightarrow> holds_entry d' a t)"
  using assms(3,4)
proof (induction "length entries - unat i" arbitrary: i d)
  case 0
  then have "\<not> unat i < length entries" by simp
  then show ?case using 0 by (subst write_entry_loop.simps) simp
next
  case (Suc m)
  from Suc.hyps(2) have lt: "unat i < length entries" by simp
  with assms(2) have small: "unat i < 255" by simp
  have next_i: "unat (i + 1) = Suc (unat i)" using small by (rule unat_byte_Suc)
  have sub: "(of_nat (Suc (unat i)) :: byte) = i + 1" by simp
  let ?v = "Value_uint32 (entries ! unat i)"
  have vt: "value_type ?v = uint32" "get_bytes ?v = uint32_to_bytes (entries ! unat i)"
    "length (get_bytes ?v) = 4"
    by (simp_all add: Value_uint32_def uint32_to_bytes_def)
  have "holds_entry d (idx, of_nat (Suc (unat i))) uint32"
    using Suc.prems(2) [of "Suc (unat i)"] lt by simp
  then have "holds_entry d (idx, i + 1) (value_type ?v)"
    unfolding sub vt(1) .
  from set_entry_sdo_ok [OF this assms(1)] obtain d1 where
    d1: "set_entry env idx (i + 1) ?v WriteAccessMethod.sdo d = (Inr (), d1)"
      "sdo_log (m_core d1) = sdo_log (m_core d) @
         [Download (m_node_id d) idx (i + 1) 4 (uint32_to_bytes (entries ! unat i))]"
      "m_node_id d1 = m_node_id d"
      "\<And>a t. holds_entry d a t \<Longrightarrow> holds_entry d1 a t"
    using vt by auto
  have m: "m = length entries - unat (i + 1)" using Suc.hyps(2) next_i by simp
  have le: "unat (i + 1) \<le> length entries" using lt next_i by simp
  have hold1: "holds_entry d1 (idx, of_nat j) uint32"
    if "unat (i + 1) < j" "j \<le> length entries" for j
    using that Suc.prems(2) [of j] d1(4) next_i by simp
  from Suc.hyps(1) [OF m le hold1] obtain d' where
    d': "write_entry_loop env idx entries (i + 1) (i + 1) d1 = Some (Inr (), d')"
      "sdo_log (m_core d') = sdo_log (m_core d1) @
         map (\<lambda>j. Download (m_node_id d1) idx (of_nat (Suc j)) 4 (uint32_to_bytes (entries ! j)))
           [unat (i + 1) ..< length entries]"
      "m_node_id d' = m_node_id d1"
      "\<And>a t. holds_entry d1 a t \<Longrightarrow> holds_entry d' a t"
    by blast
  have run: "write_entry_loop env idx entries i i d = Some (Inr (), d')"
    using lt d1(1) d'(1) by (subst write_entry_loop.simps) simp
  have upt: "[unat i ..< length entries] = unat i # [unat (i + 1) ..< length entries]"
    using lt next_i by (simp add: upt_conv_Cons)
  have log: "sdo_log (m_core d') = sdo_log (m_core d) @
      map (\<lambda>j. Download (m_node_id d) idx (of_nat (Suc j)) 4 (uint32_to_bytes (entries ! j)))
        [unat i ..< length entries]"
    unfolding upt using d'(2) d1(2,3) sub by simp
  show ?case using run log d'(3) d1(3) d'(4) d1(4) by auto
qed


lemma get_tpdo_indexes_number:
  "get_tpdo_indexes n = (0x1800 + of_nat (tpdo_number n - 1), 0x1A00 + of_nat (tpdo_number n - 1))"
  by (cases n) simp_all

lemma disable_bit: "(c :: 32 word) XOR ((- 1 XOR c) AND push_bit n 1) = set_bit n c"
  by (rule bit_eqI) (auto simp: bit_simps)

lemma enable_bit:
  "set_bit n (c :: 32 word) XOR ((0 XOR set_bit n c) AND push_bit n 1) = unset_bit n c"
  by (rule bit_eqI) (auto simp: bit_simps)

lemma get_entry_sdo_ok:
  assumes "holds_entry d (i, s) t"
    and "sdo_server env (sdo_log (m_core d)) (Upload (m_node_id d) i s) = Inr data"
    and "Value_from_bytes env t data = Inr v"
  shows "\<exists>d'. get_entry env i s ReadAccessMethod.sdo d = (Inr v, d') \<and>
              sdo_log (m_core d') = sdo_log (m_core d) @ [Upload (m_node_id d) i s] \<and>
              m_node_id d' = m_node_id d \<and>
              (\<forall>a t. holds_entry d a t \<longrightarrow> holds_entry d' a t)"
proof -
  from holds_entryD [OF assms(1)] obtain e where
    e: "m_dictionary d (i, s) = Some e" "type e = t" "index e = i" "subindex e = s"
    by auto
  let ?req = "Upload (m_node_id d) i s"
  have via: "get_entry_via_sdo env (m_node_id d) i s t (m_core d) =
               (Inr v, (m_core d)\<lparr>sdo_log := sdo_log (m_core d) @ [?req]\<rparr>)"
    unfolding get_entry_via_sdo_def
    by (subst get_entry_via_sdo_loop.simps) (simp add: sdo_transfer_def assms(2,3))
  let ?d' = "d\<lparr>m_core := (m_core d)\<lparr>sdo_log := sdo_log (m_core d) @ [?req]\<rparr>,
               m_dictionary := (m_dictionary d)((i, s) \<mapsto> set_value e v)\<rparr>"
  have r: "get_entry env i s ReadAccessMethod.sdo d = (Inr v, ?d')"
    using e via by (simp add: get_entry_def get_value_def set_value_def)
  have keep: "holds_entry ?d' a t" if "holds_entry d a t" for a t
  proof (cases "a = (i, s)")
    case True
    with that e(1) show ?thesis by (simp add: holds_entry_def set_value_def)
  next
    case False
    with that show ?thesis by (simp add: holds_entry_def)
  qed
  show ?thesis using r keep by auto
qed

text \<open>
  C1. For each of TPDO 1 to 4 and every list of k mapping words (k at most 255, the
  range of a subindex), on a node whose dictionary holds the communication and mapping
  parameters of the TPDO and whose server answers every request,
  \<open>map_tpdo_in_device(tpdo_no, entries, transmit_type)\<close> returns normally and has issued
  exactly the requests of \<open>tpdo_remap_requests\<close>, in that order, with the communication
  index \<open>0x1800 + n - 1\<close> and the mapping index \<open>0x1A00 + n - 1\<close>.
\<close>

theorem map_tpdo_in_device_requests:
  assumes k: "length entries \<le> 255"
    and srv: "server_never_fails env"
    and comm: "comm = 0x1800 + of_nat (tpdo_number tpdo_no - 1)"
    and mapp: "mapp = 0x1A00 + of_nat (tpdo_number tpdo_no - 1)"
    and e_cob: "holds_entry d (comm, 1) uint32"
    and e_tt: "holds_entry d (comm, 2) uint8"
    and e_cnt: "holds_entry d (mapp, 0) uint8"
    and e_map: "\<forall>j. 1 \<le> j \<and> j \<le> length entries \<longrightarrow> holds_entry d (mapp, of_nat j) uint32"
    and reply: "sdo_server env (sdo_log (m_core d)) (Upload (m_node_id d) comm 1) = Inr reply"
    and width: "length reply = unat (get_type_size env uint32)"
  shows "\<exists>d'. map_tpdo_in_device env tpdo_no entries tt d = Some (Inr (), d') \<and>
              sdo_log (m_core d') =
                sdo_log (m_core d) @
                tpdo_remap_requests (m_node_id d) comm mapp (bytes_to_uint32 reply) entries tt"
proof -
  let ?node = "m_node_id d"
  let ?cob = "bytes_to_uint32 reply"
  have idx: "get_tpdo_indexes tpdo_no = (comm, mapp)"
    using comm mapp by (simp add: get_tpdo_indexes_number)
  have v0: "Value_from_bytes env uint32 reply = Inr (Value uint32 reply)"
    using width by (simp add: Value_from_bytes_def)
  from get_entry_sdo_ok [OF e_cob reply v0] obtain d1 where
    d1: "get_entry env comm 1 ReadAccessMethod.sdo d = (Inr (Value uint32 reply), d1)"
      "sdo_log (m_core d1) = sdo_log (m_core d) @ [Upload ?node comm 1]"
      "m_node_id d1 = ?node"
      "\<And>a t. holds_entry d a t \<Longrightarrow> holds_entry d1 a t"
    by blast
  have conv: "to_uint32 (Value uint32 reply) = Inr ?cob"
    by (simp add: to_uint32_def)
  have b32: "value_type (Value_uint32 w) = uint32" "length (uint32_to_bytes w) = 4"
    "get_bytes (Value_uint32 w) = uint32_to_bytes w" for w
    by (simp_all add: Value_uint32_def uint32_to_bytes_def)
  have b8: "value_type (Value_uint8 b) = uint8" "get_bytes (Value_uint8 b) = [b]" for b
    by (simp_all add: Value_uint8_def)
  have "holds_entry d1 (comm, 1) (value_type (Value_uint32 (set_bit 31 ?cob)))"
    using d1(4) [OF e_cob] by (simp add: b32)
  from set_entry_sdo_ok [OF this srv] obtain d2 where
    d2: "set_entry env comm 1 (Value_uint32 (set_bit 31 ?cob)) WriteAccessMethod.sdo d1 = (Inr (), d2)"
      "sdo_log (m_core d2) = sdo_log (m_core d1) @
         [Download ?node comm 1 4 (uint32_to_bytes (set_bit 31 ?cob))]"
      "m_node_id d2 = ?node"
      "\<And>a t. holds_entry d1 a t \<Longrightarrow> holds_entry d2 a t"
    using d1(3) by (auto simp: b32)
  have "holds_entry d2 (mapp, 0) (value_type (Value_uint8 0))"
    using d2(4) [OF d1(4) [OF e_cnt]] by (simp add: b8)
  from set_entry_sdo_ok [OF this srv] obtain d3 where
    d3: "set_entry env mapp 0 (Value_uint8 0) WriteAccessMethod.sdo d2 = (Inr (), d3)"
      "sdo_log (m_core d3) = sdo_log (m_core d2) @ [Download ?node mapp 0 1 [0]]"
      "m_node_id d3 = ?node"
      "\<And>a t. holds_entry d2 a t \<Longrightarrow> holds_entry d3 a t"
    using d2(3) by (auto simp: b8)
  have keep3: "holds_entry d3 a t" if "holds_entry d a t" for a t
    using that d1(4) d2(4) d3(4) by blast
  have maps3: "holds_entry d3 (mapp, of_nat j) uint32"
    if "unat (0 :: byte) < j" "j \<le> length entries" for j
    using that e_map keep3 by simp
  from write_entry_loop_ok [OF srv k _ maps3, of 0] obtain d4 where
    d4: "write_entry_loop env mapp entries 0 0 d3 = Some (Inr (), d4)"
      "sdo_log (m_core d4) = sdo_log (m_core d3) @
         map (\<lambda>j. Download ?node mapp (of_nat (Suc j)) 4 (uint32_to_bytes (entries ! j)))
           [0 ..< length entries]"
      "m_node_id d4 = ?node"
      "\<And>a t. holds_entry d3 a t \<Longrightarrow> holds_entry d4 a t"
    using d3(3) by auto
  have "holds_entry d4 (mapp, 0) (value_type (Value_uint8 (of_nat (length entries))))"
    using d4(4) [OF keep3 [OF e_cnt]] by (simp add: b8)
  from set_entry_sdo_ok [OF this srv] obtain d5 where
    d5: "set_entry env mapp 0 (Value_uint8 (of_nat (length entries))) WriteAccessMethod.sdo d4 =
           (Inr (), d5)"
      "sdo_log (m_core d5) = sdo_log (m_core d4) @
         [Download ?node mapp 0 1 [of_nat (length entries)]]"
      "m_node_id d5 = ?node"
      "\<And>a t. holds_entry d4 a t \<Longrightarrow> holds_entry d5 a t"
    using d4(3) by (auto simp: b8)
  have keep5: "holds_entry d5 a t" if "holds_entry d a t" for a t
    using that keep3 d4(4) d5(4) by blast
  have "holds_entry d5 (comm, 2) (value_type (Value_uint8 tt))"
    using keep5 [OF e_tt] by (simp add: b8)
  from set_entry_sdo_ok [OF this srv] obtain d6 where
    d6: "set_entry env comm 2 (Value_uint8 tt) WriteAccessMethod.sdo d5 = (Inr (), d6)"
      "sdo_log (m_core d6) = sdo_log (m_core d5) @ [Download ?node comm 2 1 [tt]]"
      "m_node_id d6 = ?node"
      "\<And>a t. holds_entry d5 a t \<Longrightarrow> holds_entry d6 a t"
    using d5(3) by (auto simp: b8)
  have "holds_entry d6 (comm, 1) (value_type (Value_uint32 (unset_bit 31 ?cob)))"
    using d6(4) [OF keep5 [OF e_cob]] by (simp add: b32)
  from set_entry_sdo_ok [OF this srv] obtain d7 where
    d7: "set_entry env comm 1 (Value_uint32 (unset_bit 31 ?cob)) WriteAccessMethod.sdo d6 =
           (Inr (), d7)"
      "sdo_log (m_core d7) = sdo_log (m_core d6) @
         [Download ?node comm 1 4 (uint32_to_bytes (unset_bit 31 ?cob))]"
    using d6(3) by (auto simp: b32)
  have run: "map_tpdo_in_device env tpdo_no entries tt d = Some (Inr (), d7)"
    unfolding map_tpdo_in_device_def idx
    by (simp only: and_then_def Let_def write_entry_def d1(1) conv disable_bit enable_bit
        d2(1) d3(1) d4(1) d5(1) d6(1) d7(1) fst_conv snd_conv prod.case sum.case option.case)
  have log: "sdo_log (m_core d7) =
      sdo_log (m_core d) @ tpdo_remap_requests ?node comm mapp ?cob entries tt"
    by (simp add: tpdo_remap_requests_def d7(2) d6(2) d5(2) d4(2) d3(2) d2(2) d1(2))
  show ?thesis using run log by blast
qed


theorem map_tpdo_in_device_requests_witness:
  "length [0x606C0020, 0x60410010, 0x603F0010 :: 32 word] \<le> 255 \<and>
   server_never_fails (ex_env srv_ok) \<and>
   holds_entry ex_device (0x1800, 1) uint32 \<and>
   holds_entry ex_device (0x1800, 2) uint8 \<and>
   holds_entry ex_device (0x1A00, 0) uint8 \<and>
   holds_entry ex_device (0x1A00, 1) uint32 \<and>
   holds_entry ex_device (0x1A00, 2) uint32 \<and>
   holds_entry ex_device (0x1A00, 3) uint32 \<and>
   sdo_server (ex_env srv_ok) (sdo_log (m_core ex_device)) (Upload (m_node_id ex_device) 0x1800 1) =
     Inr [0x81, 0x01, 0, 0] \<and>
   (\<exists>d'. map_tpdo_in_device (ex_env srv_ok) TPDO_1 [0x606C0020, 0x60410010, 0x603F0010] 255
            ex_device = Some (Inr (), d') \<and>
         sdo_log (m_core d') =
           [Upload 1 0x1800 1,
            Download 1 0x1800 1 4 [0x81, 0x01, 0, 0x80],
            Download 1 0x1A00 0 1 [0],
            Download 1 0x1A00 1 4 [0x20, 0x00, 0x6C, 0x60],
            Download 1 0x1A00 2 4 [0x10, 0x00, 0x41, 0x60],
            Download 1 0x1A00 3 4 [0x10, 0x00, 0x3F, 0x60],
            Download 1 0x1A00 0 1 [3],
            Download 1 0x1800 2 1 [255],
            Download 1 0x1800 1 4 [0x81, 0x01, 0, 0]])"
proof -
  let ?entries = "[0x606C0020, 0x60410010, 0x603F0010 :: 32 word]"
  have k: "length ?entries \<le> 255" by simp
  have srv: "server_never_fails (ex_env srv_ok)"
    by (simp add: server_never_fails_def ex_env_def srv_ok_def split: sdo_request.split)
  have comm: "(0x1800 :: 16 word) = 0x1800 + of_nat (tpdo_number TPDO_1 - 1)" by simp
  have mapp: "(0x1A00 :: 16 word) = 0x1A00 + of_nat (tpdo_number TPDO_1 - 1)" by simp
  have e_cob: "holds_entry ex_device (0x1800, 1) uint32"
    and e_tt: "holds_entry ex_device (0x1800, 2) uint8"
    and e_cnt: "holds_entry ex_device (0x1A00, 0) uint8"
    by (simp_all add: holds_entry_def ex_device_def Entry_new_def)
  have e_map: "\<forall>j. 1 \<le> j \<and> j \<le> length ?entries \<longrightarrow>
                 holds_entry ex_device (0x1A00, of_nat j) uint32"
  proof (intro allI impI)
    fix j :: nat
    assume "1 \<le> j \<and> j \<le> length ?entries"
    then have "j = 1 \<or> j = 2 \<or> j = 3" by auto
    then show "holds_entry ex_device (0x1A00, of_nat j) uint32"
      by (auto simp: holds_entry_def ex_device_def Entry_new_def)
  qed
  have reply: "sdo_server (ex_env srv_ok) (sdo_log (m_core ex_device))
                 (Upload (m_node_id ex_device) 0x1800 1) = Inr [0x81, 0x01, 0, 0]"
    by (simp add: ex_env_def srv_ok_def)
  have width: "length [0x81, 0x01, 0, 0 :: byte] = unat (get_type_size (ex_env srv_ok) uint32)"
    by (simp add: ex_env_def ex_type_size_def)
  have requests:
    "tpdo_remap_requests 1 0x1800 0x1A00 (bytes_to_uint32 [0x81, 0x01, 0, 0]) ?entries 255 =
           [Upload 1 0x1800 1,
            Download 1 0x1800 1 4 [0x81, 0x01, 0, 0x80],
            Download 1 0x1A00 0 1 [0],
            Download 1 0x1A00 1 4 [0x20, 0x00, 0x6C, 0x60],
            Download 1 0x1A00 2 4 [0x10, 0x00, 0x41, 0x60],
            Download 1 0x1A00 3 4 [0x10, 0x00, 0x3F, 0x60],
            Download 1 0x1A00 0 1 [3],
            Download 1 0x1800 2 1 [255],
            Download 1 0x1800 1 4 [0x81, 0x01, 0, 0]]"
    by code_simp
  have start: "sdo_log (m_core ex_device) = []" "m_node_id ex_device = 1"
    by (simp_all add: ex_device_def ex_core_def)
  from map_tpdo_in_device_requests
    [OF k srv comm mapp e_cob e_tt e_cnt e_map reply width, of 255]
  show ?thesis
    using k srv e_cob e_tt e_cnt e_map [rule_format, of 1] e_map [rule_format, of 2]
      e_map [rule_format, of 3] reply
    unfolding requests start by simp
qed


end
